theory Spec2Isabelle
  imports Main "HOL-Library.Sublist"
begin

section \<open>Data\<close>

subsection \<open>The process and the colour flags\<close>

record process =
  stdout_isTTY :: bool
  stdin_isTTY :: bool

text \<open>
  The object \<open>{ json, noColor, color }\<close> handed to \<open>colorsEnabled\<close>. \<open>noColor\<close> and
  \<open>color\<close> may be \<open>undefined\<close>.
\<close>

record color_ctx =
  json :: bool
  noColor :: "bool option"
  color :: "bool option"

subsection \<open>Errors and the file system\<close>

text \<open>
  A thrown \<open>Error\<close>. The failure report of \<open>runCreate\<close> reads \<open>err.message\<close> and
  \<open>err.step\<close>; \<open>new Error(message)\<close> sets the message only, and so do the errors that the
  runtime raises for a failed file operation.
\<close>

record js_error =
  message :: string
  step :: "string option"

text \<open>
  The file system: \<open>files\<close> gives the content of each path that can be read,
  \<open>directories\<close> the entries (name, and whether it is a file) of each directory that
  exists, \<open>write_error\<close> and \<open>mkdir_error\<close> the message of the error that writing to a
  path or creating a directory raises, if it raises. \<open>path.join\<close> is taken to put a slash
  between the parts.
\<close>

record filesystem =
  files :: "string \<Rightarrow> string option"
  directories :: "string \<Rightarrow> (string \<times> bool) list option"
  write_error :: "string \<Rightarrow> string option"
  mkdir_error :: "string \<Rightarrow> string option"

subsection \<open>Outcome of the UserFactory patch\<close>

datatype patch_reason =
  factory_not_found | already_present | array_not_found | array_end_not_found | replace_noop

record patch_result =
  patched :: bool
  reason :: "patch_reason option"

subsection \<open>Command results and events\<close>

text \<open>
  What \<open>execa\<close> rejects with: an error that carries, next to its message, the \<open>stdout\<close>
  and \<open>stderr\<close> captured so far, where there are any.
\<close>

record execa_error = js_error +
  error_stdout :: "string option"
  error_stderr :: "string option"

datatype execa_result = Resolved string string | Rejected execa_error

text \<open>
  The object that \<open>run\<close> returns, and the objects in \<open>events\<close>: \<open>{ name, ...r }\<close> for a
  result \<open>r\<close> of \<open>run\<close>, or a literal with a name, a status and at most a \<open>stdout\<close>. A
  property that an object does not have is \<open>None\<close>.
\<close>

record outcome =
  status :: string
  durationMs :: "int option"
  stdout :: "string option"
  stderr :: "string option"
  error :: "execa_error option"

record event = outcome +
  name :: string

subsection \<open>Flags and answers\<close>

text \<open>
  The parameter flags of the command line, as \<open>runCreate\<close> copies them from its argument
  into \<open>input\<close>; a flag that is not given is \<open>None\<close>.
\<close>

record input =
  projectName :: "string option"
  starterKit :: "string option"
  db :: "string option"
  dbHost :: "string option"
  dbPort :: "string option"
  dbName :: "string option"
  dbUser :: "string option"
  dbPassword :: "string option"
  herdDir :: "string option"
  filamentName :: "string option"
  filamentEmail :: "string option"
  filamentPassword :: "string option"

text \<open>
  The argument of \<open>runCreate\<close>: the mode flags, with the defaults of the destructuring
  applied (\<open>json\<close>, \<open>nonInteractive\<close>, \<open>yes\<close> and \<open>verbose\<close> are false when absent), and the
  parameter flags in \<open>params\<close>.
\<close>

record ctx = color_ctx +
  nonInteractive :: bool
  yes :: bool
  verbose :: bool
  params :: input

text \<open>The record \<open>answers\<close> with its two objects \<open>dbConn\<close> and \<open>filament\<close>.\<close>

record dbConn =
  conn_host :: "string option"
  conn_port :: "string option"
  conn_name :: "string option"
  conn_user :: "string option"
  conn_password :: "string option"

record filament =
  fil_name :: "string option"
  fil_email :: "string option"
  fil_password :: "string option"

record answers =
  ans_projectName :: "string option"
  ans_starterKit :: "string option"
  ans_db :: "string option"
  ans_dbConn :: dbConn
  ans_filament :: filament
  ans_herdDir :: string

text \<open>
  What the prompts of \<open>interactiveGather\<close> end in: the answers, a cancellation (the
  process exits with code 0), or an error.
\<close>

datatype gather_result = Gathered answers | Cancelled | Gather_failed js_error

subsection \<open>The world outside the program\<close>

text \<open>
  What the program asks of its surroundings. \<open>execa\<close> gives the result of running a shell
  command and what the command does to the files; \<open>elapsed\<close> is the difference of the two
  readings of \<open>Date.now()\<close> around it and \<open>total_elapsed\<close> the one around the whole run.
  The probes of the database port, the prompts and the colouring by \<open>chalk\<close> (a style and
  a text) are taken as given.
\<close>

record world = process +
  commandExists :: "string \<Rightarrow> bool"
  execa :: "string \<Rightarrow> filesystem \<Rightarrow> execa_result \<times> filesystem"
  elapsed :: "string \<Rightarrow> int"
  total_elapsed :: int
  homedir :: string
  initial_cwd :: string
  initial_disk :: filesystem
  detectMysqlService :: "string option \<Rightarrow> string option \<Rightarrow> bool"
  detectPostgresService :: "string option \<Rightarrow> string option \<Rightarrow> bool"
  interactiveGather :: "input \<Rightarrow> bool \<Rightarrow> gather_result"
  showFinalMenu :: "js_error + string"
  chalk :: "string \<Rightarrow> string \<Rightarrow> string"
  node_version :: string
  platform :: string

subsection \<open>The run\<close>

text \<open>
  What the steps share: the event log, \<open>projectPath\<close>, the working directory of the
  process and the files; the lines printed with \<open>console.log\<close> or shown as the output of a
  task; and, to speak about which actions were invoked, the titles of the tasks whose
  action has been called, in the order of the calls.
\<close>

record run_state =
  events :: "event list"
  project_path :: string
  cwd :: string
  disk :: filesystem
  printed :: "string list"
  started :: "string list"

text \<open>An entry of the task list handed to \<open>Listr\<close>: \<open>{ title, task }\<close>.\<close>

record listr_task =
  title :: string
  task :: "run_state \<Rightarrow> (js_error + unit) \<times> run_state"

text \<open>
  The document written to the standard output in JSON mode. An entry of \<open>tasks\<close> is
  \<open>(index, name, status, durationMs, stdout, stderr)\<close>, with \<open>None\<close> for \<open>null\<close>. \<open>doc_error\<close>
  is \<open>(message, code, step)\<close>; \<open>doc_input\<close> is the project name, the starter kit, the
  database, \<open>dbConn\<close>, the Herd directory and the name and e-mail of the Filament user;
  \<open>doc_result\<close> is
  \<open>(status, projectPath, dbLabel, supabase)\<close> with \<open>supabase\<close> the status, stdout and stderr
  of \<open>npx supabase status\<close>.
\<close>

type_synonym task_entry =
  "nat \<times> string \<times> string \<times> int option \<times> string option \<times> string option"

record json_doc =
  doc_version :: string
  doc_command :: string
  doc_flags :: "bool \<times> bool \<times> bool \<times> bool"
  doc_environment :: "bool \<times> string \<times> string"
  doc_status :: "string option"
  doc_input ::
    "(string option \<times> string option \<times> string option \<times> dbConn \<times> string \<times>
      string option \<times> string option) option"
  doc_tasks :: "task_entry list option"
  doc_result :: "(string \<times> string \<times> string \<times> (string \<times> string option \<times> string option) option) option"
  doc_error :: "(string \<times> string option \<times> string option) option"
  doc_metrics :: "int option"

text \<open>
  How a call of \<open>runCreate\<close> ends when it ends in \<open>process.exit\<close>: the exit code, the
  document written to the standard output, the lines written with \<open>console.error\<close>, the
  environment variables it set, and the state of the run (\<open>None\<close> when the process exits
  before the task list is built).
\<close>

record report =
  exit_code :: int
  written :: "json_doc option"
  errors_printed :: "string list"
  env_set :: "(string \<times> string) list"
  final :: "run_state option"

section \<open>JavaScript strings\<close>

text \<open>
  A JavaScript string is modelled as the list of its code units (type \<open>string\<close>), so
  \<open>length\<close> is the \<open>.length\<close> of the source and \<open>take\<close>/\<open>drop\<close> are \<open>slice\<close>.
  A value that may be \<open>undefined\<close> is an \<open>option\<close>; \<open>None\<close> and the empty string are the
  falsy strings.
\<close>

abbreviation backslash :: char where
  "backslash \<equiv> CHR 0x5C"

abbreviation squote :: char where
  "squote \<equiv> CHR 0x27"

text \<open>Truthiness of an optional string: \<open>undefined\<close> and \<open>''\<close> are falsy.\<close>

fun truthy :: "string option \<Rightarrow> bool" where
  "truthy None = False"
| "truthy (Some s) = (s \<noteq> [])"

text \<open>\<open>a || b\<close> on optional strings, with a string default.\<close>

fun or_default :: "string option \<Rightarrow> string \<Rightarrow> string" where
  "or_default None d = d"
| "or_default (Some s) d = (if s = [] then d else s)"

text \<open>
  \<open>trim\<close> removes white space and line terminators at both ends. Of the code points
  that JavaScript counts as such, these fit a \<open>char\<close>: tab, line feed, vertical tab,
  form feed, carriage return, space and the no-break space.
\<close>

definition is_space :: "char \<Rightarrow> bool" where
  "is_space c \<longleftrightarrow>
     c = CHR 0x09 \<or> c = CHR 0x0A \<or> c = CHR 0x0B \<or> c = CHR 0x0C \<or> c = CHR 0x0D \<or>
     c = CHR '' '' \<or> c = CHR 0xA0"

definition trimStart :: "string \<Rightarrow> string" where
  "trimStart s = dropWhile is_space s"

definition trimEnd :: "string \<Rightarrow> string" where
  "trimEnd s = rev (dropWhile is_space (rev s))"

definition trim :: "string \<Rightarrow> string" where
  "trim s = trimEnd (trimStart s)"

text \<open>\<open>s.split(sep)\<close> for a separator of one code unit: never empty, \<open>[""]\<close> for \<open>""\<close>.\<close>

fun split_on :: "char \<Rightarrow> string \<Rightarrow> string list" where
  "split_on sep [] = [[]]"
| "split_on sep (c # cs) =
     (if c = sep then [] # split_on sep cs
      else (case split_on sep cs of l # ls \<Rightarrow> (c # l) # ls | [] \<Rightarrow> [[c]]))"

text \<open>\<open>lines.join(sep)\<close>.\<close>

fun join_with :: "string \<Rightarrow> string list \<Rightarrow> string" where
  "join_with sep [] = []"
| "join_with sep [l] = l"
| "join_with sep (l # ls) = l @ sep @ join_with sep ls"

text \<open>\<open>s.includes(needle)\<close>; \<open>s.startsWith(p)\<close> is \<open>prefix p s\<close>.\<close>

fun str_includes :: "string \<Rightarrow> string \<Rightarrow> bool" where
  "str_includes needle [] = (needle = [])"
| "str_includes needle (c # cs) = (prefix needle (c # cs) \<or> str_includes needle cs)"

text \<open>Decimal rendering of a non-negative integer, as a template literal prints it.\<close>

fun nat_to_string :: "nat \<Rightarrow> string" where
  "nat_to_string n =
     (if n < 10 then [''0123456789'' ! n]
      else nat_to_string (n div 10) @ [''0123456789'' ! (n mod 10)])"

declare nat_to_string.simps [simp del]

section \<open>Helpers of the create command\<close>

subsection \<open>Terminal detection and colours\<close>

definition isTTY :: "'a process_scheme \<Rightarrow> bool" where
  "isTTY p = (stdout_isTTY p \<and> stdin_isTTY p)"

definition colorsEnabled :: "'a process_scheme \<Rightarrow> 'b color_ctx_scheme \<Rightarrow> bool" where
  "colorsEnabled p ctx =
     (if json ctx then False
      else if noColor ctx = Some True then False
      else if color ctx = Some False then False
      else if \<not> isTTY p then False
      else if color ctx = Some True then True
      else True)"

subsection \<open>Output truncation\<close>

text \<open>
  \<open>truncate(str = '', max = 8192)\<close>. The marker of the source is the template literal
  \<open>`\\n... [truncated ${str.length - max} chars]`\<close>: it starts with a backslash and the
  letter n.
\<close>

definition truncate_marker :: "nat \<Rightarrow> string" where
  "truncate_marker n = backslash # ''n... [truncated '' @ nat_to_string n @ '' chars]''"

definition truncate_max :: "string option \<Rightarrow> nat \<Rightarrow> string" where
  "truncate_max str mx =
     (let s = (case str of None \<Rightarrow> [] | Some s \<Rightarrow> s) in
      if s = [] then []
      else if length s > mx then take mx s @ truncate_marker (length s - mx)
      else s)"

definition truncate :: "string option \<Rightarrow> string" where
  "truncate str = truncate_max str 8192"

subsection \<open>The environment file\<close>

text \<open>
  The \<open>updates\<close> object of \<open>updateEnvValues\<close> is the list of its entries in the order of
  \<open>Object.entries\<close>; \<open>hasOwnProperty\<close> and \<open>updates[key]\<close> are \<open>map_of\<close>. The keys of an
  object are distinct.

  \<open>map_line\<close> is the callback of \<open>lines.map\<close>: it returns the key it adds to \<open>keysFound\<close>,
  if any, and the line it returns.
\<close>

type_synonym updates = "(string \<times> string) list"

definition map_line :: "updates \<Rightarrow> string \<Rightarrow> string option \<times> string" where
  "map_line updates line =
     (let trimmedLine = trim line in
      if prefix ''#'' trimmedLine \<or> \<not> str_includes ''='' trimmedLine then (None, line)
      else
        let key = hd (split_on CHR ''='' trimmedLine) in
        case map_of updates key of
          Some v \<Rightarrow> (Some key, key @ ''='' @ v)
        | None \<Rightarrow> (None, line))"

text \<open>The array \<open>lines\<close> just before \<open>lines.join\<close>, and the content written to the file.\<close>

definition updateEnvValues_lines :: "string \<Rightarrow> updates \<Rightarrow> string list" where
  "updateEnvValues_lines content updates =
     (let lines = split_on CHR 0x0A content;
          mapped = map (map_line updates) lines;
          keysFound = List.map_filter fst mapped
      in map snd mapped @
         map (\<lambda>(key, v). key @ ''='' @ v)
           (filter (\<lambda>(key, v). key \<notin> set keysFound) updates))"

definition updateEnvValues_content :: "string \<Rightarrow> updates \<Rightarrow> string" where
  "updateEnvValues_content content updates =
     join_with ''\<newline>'' (updateEnvValues_lines content updates)"

text \<open>
  Keys that \<open>map_line\<close> reads back from the line \<open>key=value\<close> it writes: no line feed
  and no \<open>=\<close> in the key, and the key does not start with white space or \<open>#\<close>.
\<close>

definition plain_key :: "string \<Rightarrow> bool" where
  "plain_key k \<longleftrightarrow>
     CHR 0x0A \<notin> set k \<and> CHR ''='' \<notin> set k \<and>
     (k = [] \<or> (\<not> is_space (hd k) \<and> hd k \<noteq> CHR ''#''))"

subsection \<open>Errors and the file system\<close>

definition new_Error :: "string \<Rightarrow> js_error" where
  "new_Error msg = \<lparr>message = msg, step = None\<rparr>"

definition path_join :: "string list \<Rightarrow> string" where
  "path_join parts = join_with ''/'' parts"

text \<open>\<open>fs.access\<close> succeeds on a file and on a directory.\<close>

definition access :: "filesystem \<Rightarrow> string \<Rightarrow> bool" where
  "access fs p \<longleftrightarrow> files fs p \<noteq> None \<or> directories fs p \<noteq> None"

definition readFile :: "filesystem \<Rightarrow> string \<Rightarrow> js_error + string" where
  "readFile fs p =
     (case files fs p of
        Some content \<Rightarrow> Inr content
      | None \<Rightarrow>
          Inl (new_Error
                 (if directories fs p \<noteq> None
                  then ''EISDIR: illegal operation on a directory, read''
                  else ''ENOENT: no such file or directory, open '' @ [squote] @ p @ [squote])))"

definition writeFile :: "filesystem \<Rightarrow> string \<Rightarrow> string \<Rightarrow> (js_error + unit) \<times> filesystem" where
  "writeFile fs p content =
     (case write_error fs p of
        Some msg \<Rightarrow> (Inl (new_Error msg), fs)
      | None \<Rightarrow> (Inr (), fs\<lparr>files := (files fs)(p \<mapsto> content)\<rparr>))"

subsection \<open>Regular expressions\<close>

text \<open>
  \<open>re.exec(s)\<close> and \<open>s.replace(re, ...)\<close> for a regular expression without the \<open>g\<close> flag
  look for the leftmost position at which the expression matches. A matcher is given the
  code unit before the position (\<open>None\<close> at the start of the input) and the input from the
  position on, and returns the length of the match there. \<open>regex_exec\<close> returns the index
  of the leftmost match and its length.
\<close>

type_synonym matcher = "char option \<Rightarrow> string \<Rightarrow> nat option"

fun regex_exec :: "matcher \<Rightarrow> char option \<Rightarrow> string \<Rightarrow> (nat \<times> nat) option" where
  "regex_exec m prev [] = (case m prev [] of Some n \<Rightarrow> Some (0, n) | None \<Rightarrow> None)"
| "regex_exec m prev (c # cs) =
     (case m prev (c # cs) of
        Some n \<Rightarrow> Some (0, n)
      | None \<Rightarrow>
          (case regex_exec m (Some c) cs of
             Some (i, n) \<Rightarrow> Some (Suc i, n)
           | None \<Rightarrow> None))"

text \<open>
  \<open>s.replace(re, f)\<close> for a function \<open>f\<close> of the matched text (a replacement string
  without \<open>$\<close> is the constant function): the leftmost match is replaced, the rest is
  kept.
\<close>

fun regex_replace :: "matcher \<Rightarrow> (string \<Rightarrow> string) \<Rightarrow> char option \<Rightarrow> string \<Rightarrow> string" where
  "regex_replace m f prev [] = (case m prev [] of Some n \<Rightarrow> f [] | None \<Rightarrow> [])"
| "regex_replace m f prev (c # cs) =
     (case m prev (c # cs) of
        Some n \<Rightarrow> f (take n (c # cs)) @ drop n (c # cs)
      | None \<Rightarrow> c # regex_replace m f (Some c) cs)"

text \<open>\<open>^\<close> with the \<open>m\<close> flag: the start of the input or just after a line terminator.\<close>

fun line_start :: "char option \<Rightarrow> bool" where
  "line_start None = True"
| "line_start (Some c) = (c = CHR 0x0A \<or> c = CHR 0x0D)"

definition space_or_tab :: "char \<Rightarrow> bool" where
  "space_or_tab c \<longleftrightarrow> c = CHR '' '' \<or> c = CHR 0x09"

text \<open>
  \<open>/^[ \t]*return\s*\[/m\<close>. Each starred class is followed by a code unit outside the
  class, so the greedy match is the only one.
\<close>

definition startRe :: matcher where
  "startRe prev s =
     (if \<not> line_start prev then None
      else
        let n1 = length (takeWhile space_or_tab s); r1 = drop n1 s in
        if \<not> prefix ''return'' r1 then None
        else
          let r2 = drop 6 r1; n2 = length (takeWhile is_space r2) in
          if prefix ''['' (drop n2 r2) then Some (n1 + 6 + n2 + 1) else None)"

text \<open>\<open>/^[ \t]*\];/m\<close>.\<close>

definition endRe :: matcher where
  "endRe prev s =
     (if \<not> line_start prev then None
      else
        let n1 = length (takeWhile space_or_tab s) in
        if prefix ''];'' (drop n1 s) then Some (n1 + 2) else None)"

subsection \<open>The UserFactory patch\<close>

definition not_patched :: "patch_reason \<Rightarrow> patch_result" where
  "not_patched r = \<lparr>patched = False, reason = Some r\<rparr>"

text \<open>
  The three lines that are injected, each \<open>indent\<close>, four spaces, the quoted column name
  and \<open> => null,\<close> with a line feed.
\<close>

definition injection_line :: "string \<Rightarrow> string \<Rightarrow> string" where
  "injection_line injectionIndent column =
     injectionIndent @ [squote] @ column @ [squote] @ '' => null,\<newline>''"

definition injection :: "string \<Rightarrow> string" where
  "injection indent =
     (let injectionIndent = indent @ ''    '' in
      injection_line injectionIndent ''two_factor_secret'' @
      injection_line injectionIndent ''two_factor_recovery_codes'' @
      injection_line injectionIndent ''two_factor_confirmed_at'')"

text \<open>\<open>/\s*$/\<close>: white space up to the end of the input.\<close>

definition trailing_space :: matcher where
  "trailing_space prev s = (if list_all is_space s then Some (length s) else None)"

text \<open>\<open>if (!arr.trimEnd().endsWith(',')) arr = arr.replace(/\s*$/, ',\n')\<close>.\<close>

definition ensure_trailing_comma :: "string \<Rightarrow> string" where
  "ensure_trailing_comma arr =
     (if \<not> suffix '','' (trimEnd arr)
      then regex_replace trailing_space (\<lambda>mt. '',\<newline>'') None arr
      else arr)"

text \<open>
  The part of \<open>patchUserFactoryTwoFactorDefaults\<close> between reading and writing the file:
  the reason for which the content is left alone, or the new content.
\<close>

definition twoFactorDefaults_content :: "string \<Rightarrow> patch_reason + string" where
  "twoFactorDefaults_content content =
     (if str_includes ''two_factor_secret'' content \<or>
         str_includes ''two_factor_recovery_codes'' content \<or>
         str_includes ''two_factor_confirmed_at'' content
      then Inl already_present
      else
        (case regex_exec startRe None content of
           None \<Rightarrow> Inl array_not_found
         | Some (startIdx, startLen) \<Rightarrow>
             let indent = takeWhile space_or_tab (take startLen (drop startIdx content));
                 afterStart = drop startIdx content
             in
             (case regex_exec endRe None afterStart of
                None \<Rightarrow> Inl array_end_not_found
              | Some (endIdx, endLen) \<Rightarrow>
                  let arrStart = startIdx + startLen;
                      arrEnd = startIdx + endIdx;
                      arr = ensure_trailing_comma
                              (take (arrEnd - arrStart) (drop arrStart content));
                      newContent =
                        take arrStart content @ arr @ injection indent @ drop arrEnd content
                  in
                  if newContent = content then Inl replace_noop else Inr newContent)))"

definition patchUserFactoryTwoFactorDefaults ::
  "filesystem \<Rightarrow> string \<Rightarrow> (js_error + patch_result) \<times> filesystem" where
  "patchUserFactoryTwoFactorDefaults fs projectPath =
     (let factoryPath = path_join [projectPath, ''database'', ''factories'', ''UserFactory.php''] in
      case readFile fs factoryPath of
        Inl e \<Rightarrow> (Inr (not_patched factory_not_found), fs)
      | Inr content \<Rightarrow>
          (case twoFactorDefaults_content content of
             Inl r \<Rightarrow> (Inr (not_patched r), fs)
           | Inr newContent \<Rightarrow>
               (case writeFile fs factoryPath newContent of
                  (Inl e, fs') \<Rightarrow> (Inl e, fs')
                | (Inr u, fs') \<Rightarrow> (Inr \<lparr>patched = True, reason = None\<rparr>, fs'))))"

subsection \<open>The phpunit.xml patch\<close>

text \<open>
  With the \<open>i\<close> flag a letter of the expression matches both of its cases; no code unit
  outside ASCII is the other case of an ASCII letter.
\<close>

definition to_upper :: "char \<Rightarrow> char" where
  "to_upper c =
     (case map_of (zip ''abcdefghijklmnopqrstuvwxyz'' ''ABCDEFGHIJKLMNOPQRSTUVWXYZ'') c of
        Some u \<Rightarrow> u
      | None \<Rightarrow> c)"

fun prefix_ci :: "string \<Rightarrow> string \<Rightarrow> bool" where
  "prefix_ci [] s = True"
| "prefix_ci (p # ps) [] = False"
| "prefix_ci (p # ps) (c # cs) = (to_upper p = to_upper c \<and> prefix_ci ps cs)"

text \<open>\<open>/<phpunit([^>]*)>/i\<close>; the group is the match without its first 8 and its last code unit.\<close>

definition phpunitRe :: matcher where
  "phpunitRe prev s =
     (if prefix_ci ''<phpunit'' s then
        let attrs = takeWhile (\<lambda>c. c \<noteq> CHR ''>'') (drop 8 s) in
        if prefix ''>'' (drop (8 + length attrs) s) then Some (8 + length attrs + 1) else None
      else None)"

text \<open>\<open>/<php>/i\<close>.\<close>

definition phpRe :: matcher where
  "phpRe prev s = (if prefix_ci ''<php>'' s then Some 5 else None)"

text \<open>
  \<open>/colors\\s*=\\s*["']?[^"']*["']?/i\<close> as the create command has it: \<open>\\\<close> is a
  backslash and \<open>s*\<close> any number of the letter s, so the expression asks for \<open>colors\<close>, a
  backslash, letters s, \<open>=\<close>, a backslash, letters s, and then takes a quote if there is
  one, everything up to the next quote, and that quote if there is one.
\<close>

definition letter_s :: "char \<Rightarrow> bool" where
  "letter_s c \<longleftrightarrow> c = CHR ''s'' \<or> c = CHR ''S''"

definition quote :: "char \<Rightarrow> bool" where
  "quote c \<longleftrightarrow> c = CHR 0x22 \<or> c = squote"

definition optional_quote :: "string \<Rightarrow> nat" where
  "optional_quote s = (case s of [] \<Rightarrow> 0 | c # cs \<Rightarrow> if quote c then 1 else 0)"

definition colorsRe :: matcher where
  "colorsRe prev s =
     (if prefix_ci ''colors'' s \<and> prefix [backslash] (drop 6 s) then
        let r1 = drop 7 s; n1 = length (takeWhile letter_s r1); r2 = drop n1 r1 in
        if prefix (''='' @ [backslash]) r2 then
          let r3 = drop 2 r2; n2 = length (takeWhile letter_s r3); r4 = drop n2 r3;
              q1 = optional_quote r4; r5 = drop q1 r4;
              n3 = length (takeWhile (\<lambda>c. \<not> quote c) r5); r6 = drop n3 r5;
              q2 = optional_quote r6
          in Some (7 + n1 + 2 + n2 + q1 + n3 + q2)
        else None
      else None)"

text \<open>
  \<open>/<env\\s+name="APP_LOCALE"\\s+value="[^"]*"/i\<close> as the create command has it: \<open><env\<close>,
  a backslash, at least one letter s, \<open>name="APP_LOCALE"\<close>, a backslash, at least one
  letter s, \<open>value="\<close>, everything up to the next double quote, and that quote.
\<close>

definition envRe :: matcher where
  \<open>envRe prev s =
     (if prefix_ci ''<env'' s \<and> prefix [backslash] (drop 4 s) then
        let r1 = drop 5 s; n1 = length (takeWhile letter_s r1); r2 = drop n1 r1 in
        if 0 < n1 \<and> prefix_ci ''name="APP_LOCALE"'' r2 \<and> prefix [backslash] (drop 17 r2) then
          let r3 = drop 18 r2; n2 = length (takeWhile letter_s r3); r4 = drop n2 r3 in
          if 0 < n2 \<and> prefix_ci ''value="'' r4 then
            let r5 = drop 7 r4; n3 = length (takeWhile (\<lambda>c. c \<noteq> CHR 0x22) r5) in
            if prefix [CHR 0x22] (drop n3 r5) then Some (5 + n1 + 18 + n2 + 7 + n3 + 1) else None
          else None
        else None
      else None)\<close>

text \<open>The callback of the first \<open>replace\<close>: \<open>attrs\<close> is the group of the match.\<close>

definition colors_callback :: "string \<Rightarrow> string" where
  \<open>colors_callback mt =
     (let attrs = take (length mt - 9) (drop 8 mt) in
      if \<not> str_includes ''colors='' attrs then ''<phpunit'' @ attrs @ '' colors="true">''
      else regex_replace colorsRe (\<lambda>m. ''colors="true"'') None mt)\<close>

definition ensure_colors :: "string \<Rightarrow> string" where
  "ensure_colors xmlData = regex_replace phpunitRe colors_callback None xmlData"

text \<open>The replacement for \<open><php>\<close>.\<close>

definition php_with_env :: string where
  \<open>php_with_env = ''<php><env name="APP_LOCALE" value="en"/>''\<close>

definition ensure_app_locale :: "string \<Rightarrow> string" where
  \<open>ensure_app_locale xmlData =
     (if str_includes ''name="APP_LOCALE"'' xmlData
      then regex_replace envRe (\<lambda>m. ''env name="APP_LOCALE" value="en"'') None xmlData
      else regex_replace phpRe (\<lambda>m. php_with_env) None xmlData)\<close>

text \<open>The content that \<open>ensurePhpunitAppLocaleEn\<close> writes for the content it read.\<close>

definition ensurePhpunitAppLocaleEn_content :: "string \<Rightarrow> string" where
  "ensurePhpunitAppLocaleEn_content xmlData = ensure_app_locale (ensure_colors xmlData)"

text \<open>
  The first candidate on which \<open>fs.access\<close> succeeds is read, patched and written; with no
  candidate nothing is done.
\<close>

definition ensurePhpunitAppLocaleEn ::
  "filesystem \<Rightarrow> string \<Rightarrow> (js_error + unit) \<times> filesystem" where
  "ensurePhpunitAppLocaleEn fs projectPath =
     (let candidates = [path_join [projectPath, ''phpunit.xml''],
                        path_join [projectPath, ''phpunit.xml.dist'']] in
      case filter (access fs) candidates of
        [] \<Rightarrow> (Inr (), fs)
      | phpunitPath # others \<Rightarrow>
          (case readFile fs phpunitPath of
             Inl e \<Rightarrow> (Inl e, fs)
           | Inr xmlData \<Rightarrow>
               writeFile fs phpunitPath (ensurePhpunitAppLocaleEn_content xmlData)))"

subsection \<open>The phpunit.xml patch of the legacy command\<close>

text \<open>
  \<open>legacy/utils.js\<close> has the same function with \<open>\s\<close> where the create command has
  \<open>\\s\<close>: \<open>/colors\s*=\s*["']?[^"']*["']?/i\<close> and
  \<open>/<env\s+name="APP_LOCALE"\s+value="[^"]*"/i\<close>, with white space around \<open>=\<close> and
  between the attributes.
\<close>

definition colorsRe_legacy :: matcher where
  "colorsRe_legacy prev s =
     (if prefix_ci ''colors'' s then
        let r1 = drop 6 s; n1 = length (takeWhile is_space r1); r2 = drop n1 r1 in
        if prefix ''='' r2 then
          let r3 = drop 1 r2; n2 = length (takeWhile is_space r3); r4 = drop n2 r3;
              q1 = optional_quote r4; r5 = drop q1 r4;
              n3 = length (takeWhile (\<lambda>c. \<not> quote c) r5); r6 = drop n3 r5;
              q2 = optional_quote r6
          in Some (6 + n1 + 1 + n2 + q1 + n3 + q2)
        else None
      else None)"

definition envRe_legacy :: matcher where
  \<open>envRe_legacy prev s =
     (if prefix_ci ''<env'' s then
        let r1 = drop 4 s; n1 = length (takeWhile is_space r1); r2 = drop n1 r1 in
        if 0 < n1 \<and> prefix_ci ''name="APP_LOCALE"'' r2 then
          let r3 = drop 17 r2; n2 = length (takeWhile is_space r3); r4 = drop n2 r3 in
          if 0 < n2 \<and> prefix_ci ''value="'' r4 then
            let r5 = drop 7 r4; n3 = length (takeWhile (\<lambda>c. c \<noteq> CHR 0x22) r5) in
            if prefix [CHR 0x22] (drop n3 r5) then Some (4 + n1 + 17 + n2 + 7 + n3 + 1) else None
          else None
        else None
      else None)\<close>

definition colors_callback_legacy :: "string \<Rightarrow> string" where
  \<open>colors_callback_legacy mt =
     (let attrs = take (length mt - 9) (drop 8 mt) in
      if \<not> str_includes ''colors='' attrs then ''<phpunit'' @ attrs @ '' colors="true">''
      else regex_replace colorsRe_legacy (\<lambda>m. ''colors="true"'') None mt)\<close>

definition ensurePhpunitAppLocaleEn_legacy_content :: "string \<Rightarrow> string" where
  \<open>ensurePhpunitAppLocaleEn_legacy_content xmlData =
     (let xmlData1 = regex_replace phpunitRe colors_callback_legacy None xmlData in
      if str_includes ''name="APP_LOCALE"'' xmlData1
      then regex_replace envRe_legacy (\<lambda>m. ''env name="APP_LOCALE" value="en"'') None xmlData1
      else regex_replace phpRe (\<lambda>m. php_with_env) None xmlData1)\<close>

subsection \<open>Running a command\<close>

text \<open>\<open>try { body } catch (error) { handler }\<close>.\<close>

definition try_catch :: "('e + 'a) \<Rightarrow> ('e \<Rightarrow> 'f + 'a) \<Rightarrow> 'f + 'a" where
  "try_catch body handler = (case body of Inl e \<Rightarrow> handler e | Inr x \<Rightarrow> Inr x)"

text \<open>
  \<open>run(cmd)\<close>: \<open>await execa(...)\<close> throws what \<open>execa\<close> rejects with. \<open>Inl\<close> is an error
  that \<open>run\<close> itself throws.
\<close>

definition run :: "world \<Rightarrow> string \<Rightarrow> filesystem \<Rightarrow> (js_error + outcome) \<times> filesystem" where
  "run w cmd fs =
     (case execa w cmd fs of (res, fs') \<Rightarrow>
        (try_catch
           (case res of
              Rejected e \<Rightarrow> Inl e
            | Resolved out err \<Rightarrow>
                Inr \<lparr>status = ''success'',
                     durationMs = Some (elapsed w cmd),
                     stdout = Some (truncate (Some out)),
                     stderr = Some (truncate (Some err)),
                     error = None\<rparr>)
           (\<lambda>e.
              Inr \<lparr>status = ''error'',
                   durationMs = Some (elapsed w cmd),
                   stdout = Some (truncate (error_stdout e)),
                   stderr = Some (truncate (if truthy (error_stderr e) then error_stderr e
                                            else Some (message e))),
                   error = Some e\<rparr>),
         fs'))"

subsection \<open>File operations of the steps\<close>

text \<open>\<open>fs.mkdir\<close> with \<open>recursive: true\<close>, and \<open>getHerdDirectory\<close>.\<close>

definition mkdir :: "filesystem \<Rightarrow> string \<Rightarrow> (js_error + unit) \<times> filesystem" where
  "mkdir fs p =
     (case mkdir_error fs p of
        Some msg \<Rightarrow> (Inl (new_Error msg), fs)
      | None \<Rightarrow>
          (Inr (),
           if directories fs p = None then fs\<lparr>directories := (directories fs)(p \<mapsto> [])\<rparr>
           else fs))"

definition getHerdDirectory ::
  "world \<Rightarrow> filesystem \<Rightarrow> string option \<Rightarrow> (js_error + string) \<times> filesystem" where
  "getHerdDirectory w fs preferred =
     (let herdDirectory = or_default preferred (path_join [homedir w, ''Herd'']) in
      if access fs herdDirectory then (Inr herdDirectory, fs)
      else
        (case mkdir fs herdDirectory of
           (Inl e, fs') \<Rightarrow> (Inl e, fs')
         | (Inr u, fs') \<Rightarrow> (Inr herdDirectory, fs')))"

text \<open>
  \<open>updateEnvValues\<close>: a \<open>.env\<close> that cannot be read counts as empty; the merged content is
  written.
\<close>

definition updateEnvValues ::
  "filesystem \<Rightarrow> string \<Rightarrow> updates \<Rightarrow> (js_error + unit) \<times> filesystem" where
  "updateEnvValues fs projectPath updates =
     (let envPath = path_join [projectPath, ''.env''];
          content = (case readFile fs envPath of Inl e \<Rightarrow> [] | Inr c \<Rightarrow> c)
      in writeFile fs envPath (updateEnvValues_content content updates))"

definition setAppLocaleEs :: "filesystem \<Rightarrow> string \<Rightarrow> (js_error + unit) \<times> filesystem" where
  "setAppLocaleEs fs projectPath = updateEnvValues fs projectPath [(''APP_LOCALE'', ''es'')]"

definition maybeCreateSqliteDatabase ::
  "filesystem \<Rightarrow> string \<Rightarrow> (js_error + unit) \<times> filesystem" where
  "maybeCreateSqliteDatabase fs projectPath =
     (let dbFile = path_join [projectPath, ''database'', ''database.sqlite''] in
      case mkdir fs (path_join [projectPath, ''database'']) of
        (Inl e, fs') \<Rightarrow> (Inl e, fs')
      | (Inr u, fs') \<Rightarrow> writeFile fs' dbFile [])"

definition createPhpstanFile :: "filesystem \<Rightarrow> string \<Rightarrow> (js_error + unit) \<times> filesystem" where
  \<open>createPhpstanFile fs projectPath =
     writeFile fs (path_join [projectPath, ''phpstan.neon''])
       ''includes:\<newline>    - vendor/larastan/larastan/extension.neon\<newline>parameters:\<newline>    paths:\<newline>        - app/\<newline>    level: 5''\<close>

definition createPintFile :: "filesystem \<Rightarrow> string \<Rightarrow> (js_error + unit) \<times> filesystem" where
  \<open>createPintFile fs projectPath =
     writeFile fs (path_join [projectPath, ''pint.json''])
       ''{\<newline>  "preset": "laravel"\<newline>}''\<close>

definition createRectorFile :: "filesystem \<Rightarrow> string \<Rightarrow> (js_error + unit) \<times> filesystem" where
  \<open>createRectorFile fs projectPath =
     writeFile fs (path_join [projectPath, ''rector.php''])
       (''<?php\<newline>\<newline>declare(strict_types=1);\<newline>\<newline>use Rector'' @ [backslash] @ ''Config'' @ [backslash] @ ''RectorConfig;\<newline>use Rector'' @ [backslash] @ ''Php83'' @ [backslash] @ ''Rector'' @ [backslash] @ ''ClassMethod'' @ [backslash] @ ''AddOverrideAttributeToOverriddenMethodsRector;\<newline>\<newline>return RectorConfig::configure()\<newline>    ->withPhpSets()\<newline>    ->withSkip([\<newline>        AddOverrideAttributeToOverriddenMethodsRector::class,\<newline>    ])\<newline>    ->withPaths([\<newline>        __DIR__.'' @ [squote] @ ''/app'' @ [squote] @ '',\<newline>    ])\<newline>    ->withPreparedSets(\<newline>        deadCode: true,\<newline>        codeQuality: true,\<newline>    );'')\<close>

text \<open>
  \<open>detectTwoFactorColumnsInMigrations\<close>: the loop over the entries of the directory; an
  error while listing or reading ends it with \<open>false\<close>.
\<close>

fun scan_migrations :: "filesystem \<Rightarrow> string \<Rightarrow> (string \<times> bool) list \<Rightarrow> bool" where
  "scan_migrations fs migrationsDir [] = False"
| "scan_migrations fs migrationsDir ((entry_name, isFile) # rest) =
     (if \<not> isFile then scan_migrations fs migrationsDir rest
      else if \<not> suffix ''.php'' entry_name then scan_migrations fs migrationsDir rest
      else
        (case readFile fs (path_join [migrationsDir, entry_name]) of
           Inl e \<Rightarrow> False
         | Inr data \<Rightarrow>
             if str_includes ''two_factor_secret'' data \<or>
                str_includes ''two_factor_recovery_codes'' data \<or>
                str_includes ''two_factor_confirmed_at'' data \<or>
                str_includes ''two_factor_'' data
             then True
             else scan_migrations fs migrationsDir rest))"

definition detectTwoFactorColumnsInMigrations :: "filesystem \<Rightarrow> string \<Rightarrow> bool" where
  "detectTwoFactorColumnsInMigrations fs projectPath =
     (let migrationsDir = path_join [projectPath, ''database'', ''migrations''] in
      case directories fs migrationsDir of
        None \<Rightarrow> False
      | Some entries \<Rightarrow> scan_migrations fs migrationsDir entries)"

subsection \<open>Actions\<close>

text \<open>
  The action of a task runs on the state of the run and either returns or throws.
  \<open>seq\<close> runs actions in order up to the first that throws.
\<close>

type_synonym action = "run_state \<Rightarrow> (js_error + unit) \<times> run_state"

definition throw_Error :: "string \<Rightarrow> action" where
  "throw_Error msg s = (Inl (new_Error msg), s)"

fun seq :: "action list \<Rightarrow> action" where
  "seq [] s = (Inr (), s)"
| "seq (a # as) s = (case a s of (Inl e, s') \<Rightarrow> (Inl e, s') | (Inr u, s') \<Rightarrow> seq as s')"

definition if_then :: "bool \<Rightarrow> action \<Rightarrow> action" where
  "if_then b a s = (if b then a s else (Inr (), s))"

text \<open>\<open>events.push(ev)\<close>; the event \<open>{ name, ...r }\<close>; an event written as a literal.\<close>

definition push :: "event \<Rightarrow> action" where
  "push ev s = (Inr (), s\<lparr>events := events s @ [ev]\<rparr>)"

definition named :: "string \<Rightarrow> outcome \<Rightarrow> event" where
  "named n r =
     \<lparr>status = status r, durationMs = durationMs r, stdout = stdout r, stderr = stderr r,
      error = error r, name = n\<rparr>"

definition literal_event :: "string \<Rightarrow> string \<Rightarrow> string option \<Rightarrow> event" where
  "literal_event n st out =
     \<lparr>status = st, durationMs = None, stdout = out, stderr = None, error = None, name = n\<rparr>"

text \<open>
  The recurring three lines
  \<open>const r = await run(cmd); events.push({ name, ...r }); if (r.status === 'error') throw new Error(msg)\<close>.
\<close>

definition run_event :: "world \<Rightarrow> string \<Rightarrow> string \<Rightarrow> string \<Rightarrow> action" where
  "run_event w event_name cmd msg s =
     (case run w cmd (disk s) of
        (Inl e, d) \<Rightarrow> (Inl e, s\<lparr>disk := d\<rparr>)
      | (Inr r, d) \<Rightarrow>
          let s' = s\<lparr>disk := d, events := events s @ [named event_name r]\<rparr> in
          if status r = ''error'' then (Inl (new_Error msg), s') else (Inr (), s'))"

text \<open>\<open>try { await commandExists(cmd) } catch { throw new Error(msg) }\<close>.\<close>

definition require_command :: "world \<Rightarrow> string \<Rightarrow> string \<Rightarrow> action" where
  "require_command w cmd msg s =
     (if commandExists w cmd then (Inr (), s) else (Inl (new_Error msg), s))"

text \<open>An operation on the files, \<open>console.log\<close>, and \<open>process.chdir\<close>.\<close>

definition on_disk :: "(filesystem \<Rightarrow> (js_error + 'a) \<times> filesystem) \<Rightarrow> action" where
  "on_disk f s =
     (case f (disk s) of
        (Inl e, d) \<Rightarrow> (Inl e, s\<lparr>disk := d\<rparr>)
      | (Inr x, d) \<Rightarrow> (Inr (), s\<lparr>disk := d\<rparr>))"

definition print_line :: "string \<Rightarrow> action" where
  "print_line l s = (Inr (), s\<lparr>printed := printed s @ [l]\<rparr>)"

definition chdir :: "string \<Rightarrow> action" where
  "chdir dir s =
     (if directories (disk s) dir \<noteq> None then (Inr (), s\<lparr>cwd := dir\<rparr>)
      else
        (Inl (new_Error
           ((if files (disk s) dir \<noteq> None then ''ENOTDIR: not a directory''
             else ''ENOENT: no such file or directory'') @
            '', chdir '' @ [squote] @ cwd s @ [squote] @ '' -> '' @ [squote] @ dir @ [squote])),
         s))"

text \<open>A value in a template literal: \<open>undefined\<close> is printed as that word.\<close>

fun template :: "string option \<Rightarrow> string" where
  "template None = ''undefined''"
| "template (Some s) = s"

definition dbLabelOf :: "string option \<Rightarrow> string" where
  "dbLabelOf d =
     (if d = Some ''sqlite'' then ''SQLite''
      else if d = Some ''supabase'' then ''Supabase (PostgreSQL)''
      else if d = Some ''mysql'' then ''MySQL''
      else if d = Some ''postgresql'' then ''PostgreSQL''
      else template d)"

subsection \<open>The thirteen tasks\<close>

definition task_prechecks :: "world \<Rightarrow> bool \<Rightarrow> bool \<Rightarrow> answers \<Rightarrow> action" where
  \<open>task_prechecks w jsn colorOn a =
     seq
       [\<lambda>s. if commandExists w ''herd''
             then if_then (\<not> jsn \<and> colorOn) (print_line (chalk w ''green'' ''herd OK'')) s
             else throw_Error (''Laravel Herd no parece estar instalado. Inst'' @ [CHR 0xE1] @ ''lalo antes de continuar.'') s,
        \<lambda>s. case getHerdDirectory w (disk s) (Some (ans_herdDir a)) of
               (Inl e, d) \<Rightarrow> (Inl e, s\<lparr>disk := d\<rparr>)
             | (Inr herdDirectory, d) \<Rightarrow> chdir herdDirectory (s\<lparr>disk := d\<rparr>),
        push (literal_event ''prechecks'' ''success'' None)]\<close>

definition task_scaffold :: "world \<Rightarrow> answers \<Rightarrow> action" where
  \<open>task_scaffold w a =
     seq
       [if_then (\<not> commandExists w ''laravel'')
          (run_event w ''install_laravel_installer''
             ''composer global require laravel/installer -q -n''
             ''Fallo al instalar Laravel Installer''),
        run_event w ''laravel_new''
          (''laravel new '' @ template (ans_projectName a) @ '' '' @
           (''--'' @ template (ans_starterKit a)) @ '' --git --pest --no-interaction'')
          ''Fallo al crear el proyecto Laravel'',
        \<lambda>s. let p = path_join [cwd s, template (ans_projectName a)] in
             chdir p (s\<lparr>project_path := p\<rparr>),
        push (literal_event ''chdir_project'' ''success'' None)]\<close>

definition service_check :: "world \<Rightarrow> bool \<Rightarrow> bool \<Rightarrow> answers \<Rightarrow> action" where
  \<open>service_check w jsn colorOn a =
     (let mysql = (ans_db a = Some ''mysql'');
          h = conn_host (ans_dbConn a);
          p = conn_port (ans_dbConn a);
          listening = (if mysql then detectMysqlService w h p else detectPostgresService w h p);
          label = (if mysql then ''MySQL'' else ''PostgreSQL'');
          msg = (if listening
                 then label @ '' detectado en '' @ template h @ '':'' @ template p
                 else (''Advertencia: No se detect'' @ [CHR 0xF3] @ '' '') @ label @ '' activo en '' @ template h @
                      '':'' @ template p @ (''. In'' @ [CHR 0xED] @ ''cialo para evitar fallos en migraciones.''));
          out = (if colorOn
                 then (if listening then chalk w ''green'' msg else chalk w ''yellow.bold'' msg)
                 else msg)
      in seq
           [if_then (\<not> jsn) (print_line out),
            push (literal_event
                    (if mysql then ''mysql_service_check'' else ''postgres_service_check'')
                    (if listening then ''success'' else ''warning'')
                    (Some msg))])\<close>

definition supabase_setup :: "world \<Rightarrow> action" where
  \<open>supabase_setup w =
     seq
       [require_command w ''node'' (''Node.js no est'' @ [CHR 0xE1] @ '' instalado. Requerido para Supabase.''),
        require_command w ''npm'' (''npm no est'' @ [CHR 0xE1] @ '' instalado. Requerido para Supabase.''),
        run_event w ''npm_install_supabase_cli'' ''npm install supabase --save-dev''
          ''Fallo al instalar Supabase CLI'',
        run_event w ''docker_info'' ''docker info''
          (''Docker no est'' @ [CHR 0xE1] @ '' en ejecuci'' @ [CHR 0xF3] @ ''n. In'' @ [CHR 0xED] @ ''cialo antes de continuar.''),
        run_event w ''supabase_init'' ''npx supabase init --yes'' ''Fallo al inicializar Supabase'',
        run_event w ''supabase_start'' ''npx supabase start'' ''Fallo al iniciar Supabase'']\<close>

definition configure_env :: "answers \<Rightarrow> action" where
  \<open>configure_env a s =
     (if ans_db a = Some ''sqlite'' then
        seq
          [on_disk (\<lambda>fs. updateEnvValues fs (project_path s) [(''DB_CONNECTION'', ''sqlite'')]),
           on_disk (\<lambda>fs. maybeCreateSqliteDatabase fs (project_path s))] s
      else if ans_db a = Some ''supabase'' then
        on_disk (\<lambda>fs. updateEnvValues fs (project_path s)
          [(''DB_CONNECTION'', ''pgsql''), (''DB_HOST'', ''localhost''), (''DB_PORT'', ''54322''),
           (''DB_DATABASE'', ''postgres''), (''DB_USERNAME'', ''postgres''),
           (''DB_PASSWORD'', ''postgres'')]) s
      else if ans_db a = Some ''mysql'' \<or> ans_db a = Some ''postgresql'' then
        on_disk (\<lambda>fs. updateEnvValues fs (project_path s)
          [(''DB_CONNECTION'', if ans_db a = Some ''mysql'' then ''mysql'' else ''pgsql''),
           (''DB_HOST'', template (conn_host (ans_dbConn a))),
           (''DB_PORT'', template (conn_port (ans_dbConn a))),
           (''DB_DATABASE'', template (conn_name (ans_dbConn a))),
           (''DB_USERNAME'', template (conn_user (ans_dbConn a))),
           (''DB_PASSWORD'', template (conn_password (ans_dbConn a)))]) s
      else (Inr (), s))\<close>

definition task_database :: "world \<Rightarrow> bool \<Rightarrow> bool \<Rightarrow> answers \<Rightarrow> action" where
  \<open>task_database w jsn colorOn a =
     seq
       [if_then (ans_db a = Some ''mysql'' \<or> ans_db a = Some ''postgresql'')
          (service_check w jsn colorOn a),
        if_then (ans_db a = Some ''supabase'') (supabase_setup w),
        configure_env a,
        \<lambda>s. on_disk (\<lambda>fs. setAppLocaleEs fs (project_path s)) s,
        run_event w ''artisan_migrate'' ''php artisan migrate -n'' ''Fallo al ejecutar migraciones'']\<close>

definition reason_name :: "patch_reason option \<Rightarrow> string" where
  "reason_name r =
     (case r of
        None \<Rightarrow> ''undefined''
      | Some factory_not_found \<Rightarrow> ''factory_not_found''
      | Some already_present \<Rightarrow> ''already_present''
      | Some array_not_found \<Rightarrow> ''array_not_found''
      | Some array_end_not_found \<Rightarrow> ''array_end_not_found''
      | Some replace_noop \<Rightarrow> ''replace_noop'')"

definition task_two_factor :: action where
  \<open>task_two_factor s =
     (let has2fa = detectTwoFactorColumnsInMigrations (disk s) (project_path s);
          s1 = s\<lparr>events := events s @
                 [literal_event ''detect_two_factor_migration''
                    (if has2fa then ''success'' else ''skipped'')
                    (Some (if has2fa then ''2FA columns detected'' else ''No 2FA columns detected''))]\<rparr>
      in if \<not> has2fa then (Inr (), s1)
         else
           (case patchUserFactoryTwoFactorDefaults (disk s1) (project_path s1) of
              (Inl e, d) \<Rightarrow> (Inl e, s1\<lparr>disk := d\<rparr>)
            | (Inr patch, d) \<Rightarrow>
                push (literal_event ''patch_user_factory_2fa''
                        (if patched patch then ''success'' else ''skipped'')
                        (Some (if patched patch then ''UserFactory patched''
                               else ''Skipped ('' @ reason_name (reason patch) @ '')'')))
                  (s1\<lparr>disk := d\<rparr>)))\<close>

definition task_filament :: "world \<Rightarrow> answers \<Rightarrow> action" where
  \<open>task_filament w a =
     seq
       [run_event w ''composer_filament''
          ''composer require filament/filament --with-all-dependencies -q -n''
          ''Fallo instalando Filament'',
        run_event w ''artisan_filament_install'' ''php artisan filament:install --panels -n -q''
          ''Fallo configurando Filament'',
        run_event w ''artisan_filament_user''
          (''php artisan make:filament-user --name="'' @ template (fil_name (ans_filament a)) @
           ''" --email="'' @ template (fil_email (ans_filament a)) @
           ''" --password="'' @ template (fil_password (ans_filament a)) @ ''"'')
          ''Fallo creando usuario de Filament'',
        run_event w ''artisan_filament_resource_user''
          ''php artisan make:filament-resource User --generate -n -q''
          ''Fallo creando Resource User'']\<close>

definition task_pest :: "world \<Rightarrow> action" where
  \<open>task_pest w =
     run_event w ''pest_install''
       ''php artisan pest:install -n -q || composer exec -q pest -- --init || vendor/bin/pest --init''
       ''Fallo configurando Pest''\<close>

definition task_dev_tools :: "world \<Rightarrow> action" where
  \<open>task_dev_tools w =
     seq
       [run_event w ''composer_laravel_boost'' ''composer require laravel/boost --dev -q -n''
          ''Fallo instalando Laravel Boost'',
        run_event w ''artisan_boost_install'' ''php artisan boost:install -q -n''
          ''Fallo configurando Laravel Boost'',
        run_event w ''composer_larastan'' ''composer require "larastan/larastan:^3.0" --dev -q''
          ''Fallo instalando Larastan'',
        \<lambda>s. on_disk (\<lambda>fs. createPhpstanFile fs (project_path s)) s,
        run_event w ''composer_debugbar'' ''composer require barryvdh/laravel-debugbar --dev -q''
          ''Fallo instalando Debugbar'',
        run_event w ''composer_laravel_lang'' ''composer require laravel-lang/common -q''
          ''Fallo instalando Laravel Lang'']\<close>

definition task_code_quality :: "world \<Rightarrow> action" where
  \<open>task_code_quality w =
     seq
       [run_event w ''composer_pint'' ''composer require laravel/pint --dev -q''
          ''Fallo instalando Pint'',
        \<lambda>s. on_disk (\<lambda>fs. createPintFile fs (project_path s)) s,
        run_event w ''composer_rector'' ''composer require rector/rector --dev -q''
          ''Fallo instalando Rector'',
        \<lambda>s. on_disk (\<lambda>fs. createRectorFile fs (project_path s)) s]\<close>

definition task_essentials :: "world \<Rightarrow> action" where
  \<open>task_essentials w =
     seq
       [run_event w ''composer_config_essentials_repo''
          ''composer config repositories.essentials-fork vcs https://github.com/JhonMA82/essentials''
          ''Fallo configurando repo Essentials'',
        run_event w ''composer_essentials'' ''composer require nunomaduro/essentials:0.1.1 -q -n''
          ''Fallo instalando Essentials'',
        run_event w ''artisan_vendor_publish_essentials''
          ''php artisan vendor:publish --tag=essentials-config -n -q''
          (''Fallo publicando configuraci'' @ [CHR 0xF3] @ ''n de Essentials'')]\<close>

definition task_frontend :: "world \<Rightarrow> answers \<Rightarrow> action" where
  \<open>task_frontend w a =
     seq
       [require_command w ''node'' (''Node.js no est'' @ [CHR 0xE1] @ '' instalado.''),
        require_command w ''npm'' (''npm no est'' @ [CHR 0xE1] @ '' instalado.''),
        run_event w ''npm_install'' ''npm install'' ''Fallo en npm install'',
        if ans_starterKit a = Some ''react'' then
          run_event w ''npm_install_vite_react'' ''npm install @vitejs/plugin-react --save-dev''
            ''Fallo instalando plugin Vite React''
        else if ans_starterKit a = Some ''vue'' then
          run_event w ''npm_install_vite_vue'' ''npm install @vitejs/plugin-vue --save-dev''
            ''Fallo instalando plugin Vite Vue''
        else seq [],
        run_event w ''npm_run_build'' ''npm run build'' ''Fallo construyendo assets con Vite'']\<close>

definition task_localization :: "world \<Rightarrow> action" where
  \<open>task_localization w =
     seq
       [run_event w ''artisan_lang_add'' ''php artisan lang:add es -n -q''
          ''Fallo agregando idioma es'',
        run_event w ''artisan_lang_update'' ''php artisan lang:update -q -n''
          ''Fallo actualizando traducciones'']\<close>

definition task_checks :: "world \<Rightarrow> action" where
  \<open>task_checks w =
     seq
       [\<lambda>s. on_disk (\<lambda>fs. ensurePhpunitAppLocaleEn fs (project_path s)) s,
        run_event w ''phpstan'' ''php vendor/bin/phpstan'' (''PHPStan fall'' @ [CHR 0xF3]),
        run_event w ''pest'' ''php vendor/bin/pest'' (''Pest fall'' @ [CHR 0xF3]),
        run_event w ''pint'' ''php vendor/bin/pint'' (''Pint fall'' @ [CHR 0xF3]),
        run_event w ''rector'' ''php vendor/bin/rector process'' (''Rector fall'' @ [CHR 0xF3])]\<close>

text \<open>
  The commit message starts with the character U+2728, which is beyond a \<open>char\<close>; it is
  written here as the three bytes of its UTF-8 form.
\<close>

definition sparkles :: string where
  "sparkles = [CHR 0xE2, CHR 0x9C, CHR 0xA8]"

definition task_git :: "world \<Rightarrow> string \<Rightarrow> action" where
  \<open>task_git w dbLabel =
     seq
       [run_event w ''git_add'' ''git add .'' ''Fallo en git add'',
        run_event w ''git_commit''
          (''git commit -m "'' @
           (sparkles @ '' Filament + '' @ dbLabel @
            ('' instalados: Configuraci'' @ [CHR 0xF3] @ ''n inicial por fases con starter kit y herramientas'')) @ ''"'')
          ''Fallo en git commit'']\<close>

definition tasks :: "world \<Rightarrow> bool \<Rightarrow> bool \<Rightarrow> answers \<Rightarrow> listr_task list" where
  \<open>tasks w jsn colorOn a =
     [\<lparr>title = ''Prechequeos'', task = task_prechecks w jsn colorOn a\<rparr>,
      \<lparr>title = ''Scaffold del proyecto'', task = task_scaffold w a\<rparr>,
      \<lparr>title = ''Base de datos y entorno'', task = task_database w jsn colorOn a\<rparr>,
      \<lparr>title = ''Parche 2FA (UserFactory)'', task = task_two_factor\<rparr>,
      \<lparr>title = ''Filament'', task = task_filament w a\<rparr>,
      \<lparr>title = ''Pruebas (Pest)'', task = task_pest w\<rparr>,
      \<lparr>title = ''Herramientas de desarrollo'', task = task_dev_tools w\<rparr>,
      \<lparr>title = (''Calidad de c'' @ [CHR 0xF3] @ ''digo''), task = task_code_quality w\<rparr>,
      \<lparr>title = ''Essentials'', task = task_essentials w\<rparr>,
      \<lparr>title = ''Frontend (Node + Vite)'', task = task_frontend w a\<rparr>,
      \<lparr>title = (''Localizaci'' @ [CHR 0xF3] @ ''n ES''), task = task_localization w\<rparr>,
      \<lparr>title = ''Pruebas y calidad (pre-commit)'', task = task_checks w\<rparr>,
      \<lparr>title = ''Git'', task = task_git w (dbLabelOf (ans_db a))\<rparr>]\<close>

subsection \<open>Running the task list\<close>

text \<open>
  \<open>new Listr(tasks, { concurrent: false, exitOnError: true }).run()\<close> calls the actions one
  after the other in the order of the list; when an action throws, no further action is
  called and \<open>run\<close> throws that error.
\<close>

fun listr_run :: "listr_task list \<Rightarrow> action" where
  "listr_run [] s = (Inr (), s)"
| "listr_run (t # ts) s =
     (case task t (s\<lparr>started := started s @ [title t]\<rparr>) of
        (Inl e, s') \<Rightarrow> (Inl e, s')
      | (Inr u, s') \<Rightarrow> listr_run ts s')"

subsection \<open>Validation of the flags\<close>

definition validateNonInteractive :: "input \<Rightarrow> string list" where
  "validateNonInteractive i =
     (if \<not> truthy (projectName i) then [''--project-name''] else []) @
     (if \<not> truthy (starterKit i) then [''--starter-kit''] else []) @
     (if \<not> truthy (db i) then [''--db''] else []) @
     (if db i = Some ''mysql'' \<or> db i = Some ''postgresql'' then
        (if \<not> truthy (dbHost i) then [''--db-host''] else []) @
        (if \<not> truthy (dbPort i) then [''--db-port''] else []) @
        (if \<not> truthy (dbName i) then [''--db-name''] else []) @
        (if \<not> truthy (dbUser i) then [''--db-user''] else []) @
        (if \<not> truthy (dbPassword i) then [''--db-password''] else [])
      else []) @
     (if \<not> truthy (filamentName i) then [''--filament-name''] else []) @
     (if \<not> truthy (filamentEmail i) then [''--filament-email''] else []) @
     (if \<not> truthy (filamentPassword i) then [''--filament-password''] else [])"

text \<open>
  The defaults that \<open>runCreate\<close> fills in before it validates: the starter kit and the
  database always, the Filament credentials unless \<open>--non-interactive\<close> was given.
\<close>

definition fill_defaults :: "bool \<Rightarrow> input \<Rightarrow> input" where
  "fill_defaults nonInteractive_flag i =
     (let i1 = i\<lparr>starterKit := Some (or_default (starterKit i) ''react''),
                 db := Some (or_default (db i) ''sqlite'')\<rparr>
      in if \<not> nonInteractive_flag
         then i1\<lparr>filamentName := Some (or_default (filamentName i1) ''Admin''),
                 filamentEmail := Some (or_default (filamentEmail i1) ''admin@admin.com''),
                 filamentPassword := Some (or_default (filamentPassword i1) ''password'')\<rparr>
         else i1)"

definition missing_message :: "string list \<Rightarrow> string" where
  "missing_message missing =
     ''Faltan banderas requeridas en modo no interactivo: '' @ join_with '', '' missing"

subsection \<open>The outcome of the run\<close>

definition task_entries :: "event list \<Rightarrow> task_entry list" where
  "task_entries evs =
     map (\<lambda>(i, e). (i, name e, status e, durationMs e, stdout e, stderr e)) (enumerate 0 evs)"

text \<open>The \<open>catch\<close> block of \<open>runCreate\<close>; \<open>err.step || null\<close> is \<open>step err\<close>.\<close>

definition failure_report ::
  "world \<Rightarrow> 'a ctx_scheme \<Rightarrow> bool \<Rightarrow> (string \<times> string) list \<Rightarrow> js_error \<Rightarrow> run_state \<Rightarrow> report" where
  \<open>failure_report w c colorOn env err s =
     (if json c then
        \<lparr>exit_code = 1,
         written = Some
           \<lparr>doc_version = ''1.0.0'', doc_command = ''create'',
            doc_flags = (json c, nonInteractive c, yes c, verbose c),
            doc_environment = (isTTY w, node_version w, platform w),
            doc_status = Some ''error'',
            doc_input = None,
            doc_tasks = Some (task_entries (events s)),
            doc_result = None,
            doc_error = Some (message err, None, step err),
            doc_metrics = Some (total_elapsed w)\<rparr>,
         errors_printed = [], env_set = env, final = Some s\<rparr>
      else
        \<lparr>exit_code = 1, written = None,
         errors_printed =
           [let msg = ''\<newline>Ha ocurrido un error: '' @ message err in
            if colorOn then chalk w ''red.bold'' msg else msg],
         env_set = env, final = Some s\<rparr>)\<close>

text \<open>
  After the tasks, in JSON mode: the state of Supabase is asked for when that is the
  database, the document is written, and the process exits with code 0.
\<close>

definition json_success ::
  "world \<Rightarrow> 'a ctx_scheme \<Rightarrow> (string \<times> string) list \<Rightarrow> answers \<Rightarrow> run_state \<Rightarrow> report" where
  \<open>json_success w c env a s =
     (let (supabaseStatus, d) =
            (if ans_db a = Some ''supabase'' then
               (case run w ''npx supabase status'' (disk s) of
                  (Inr r, d) \<Rightarrow> (Some (status r, stdout r, stderr r), d)
                | (Inl e, d) \<Rightarrow> (None, d))
             else (None, disk s))
      in
        \<lparr>exit_code = 0,
         written = Some
           \<lparr>doc_version = ''1.0.0'', doc_command = ''create'',
            doc_flags = (json c, nonInteractive c, yes c, verbose c),
            doc_environment = (isTTY w, node_version w, platform w),
            doc_status = None,
            doc_input = Some (ans_projectName a, ans_starterKit a, ans_db a, ans_dbConn a,
                              ans_herdDir a, fil_name (ans_filament a), fil_email (ans_filament a)),
            doc_tasks = Some (task_entries (events s)),
            doc_result = Some (''success'', project_path s, dbLabelOf (ans_db a), supabaseStatus),
            doc_error = None,
            doc_metrics = Some (total_elapsed w)\<rparr>,
         errors_printed = [], env_set = env, final = Some (s\<lparr>disk := d\<rparr>)\<rparr>)\<close>

text \<open>
  After the tasks, in text mode: the state of Supabase, the closing line, the final menu
  and, when asked for, VS Code (\<open>execa('code', [projectPath], { shell: true })\<close>, taken as
  the command \<open>code\<close> followed by the path); an error thrown by the menu is caught by the
  \<open>catch\<close> block. The closing line ends in the character U+1F680, written here as the
  four bytes of its UTF-8 form.
\<close>

definition rocket :: string where
  "rocket = [CHR 0xF0, CHR 0x9F, CHR 0x9A, CHR 0x80]"

definition supabase_lines :: "world \<Rightarrow> bool \<Rightarrow> outcome \<Rightarrow> string list" where
  \<open>supabase_lines w colorOn r =
     (if colorOn then
        (if status r = ''success'' then
           [chalk w ''green.bold'' (''\<newline>Los contenedores de Supabase ya est'' @ [CHR 0xE1] @ ''n en ejecuci'' @ [CHR 0xF3] @ ''n.''),
            chalk w ''yellow.bold'' (''\<newline>Informaci'' @ [CHR 0xF3] @ ''n de los contenedores de Supabase:''),
            chalk w ''cyan'' (or_default (stdout r) [])]
         else [chalk w ''red'' (''No se pudo obtener la informaci'' @ [CHR 0xF3] @ ''n de los contenedores de Supabase.'')])
      else
        (if status r = ''success'' then
           [(''\<newline>Supabase en ejecuci'' @ [CHR 0xF3] @ ''n.''), ''\<newline>Estado de contenedores:'', or_default (stdout r) []]
         else [''No se pudo obtener estado de Supabase.'']))\<close>

definition text_success ::
  "world \<Rightarrow> 'a ctx_scheme \<Rightarrow> bool \<Rightarrow> (string \<times> string) list \<Rightarrow> answers \<Rightarrow> run_state \<Rightarrow> report" where
  \<open>text_success w c colorOn env a s =
     (let s1 =
            (if ans_db a = Some ''supabase'' then
               (case run w ''npx supabase status'' (disk s) of
                  (Inr r, d) \<Rightarrow> s\<lparr>disk := d, printed := printed s @ supabase_lines w colorOn r\<rparr>
                | (Inl e, d) \<Rightarrow> s\<lparr>disk := d\<rparr>)
             else s);
          done_line = (if colorOn then chalk w ''bold'' ((''\<newline>'' @ [CHR 0xA1] @ ''Que disfrutes tu nuevo proyecto! '') @ rocket) else (''\<newline>'' @ [CHR 0xA1] @ ''Que disfrutes tu nuevo proyecto! '') @ rocket);
          s2 = s1\<lparr>printed := printed s1 @ [done_line]\<rparr>
      in
        case showFinalMenu w of
          Inl err \<Rightarrow> failure_report w c colorOn env err s2
        | Inr chosen \<Rightarrow>
            if chosen = ''vscode'' then
              (case execa w (''code '' @ project_path s2) (disk s2) of
                 (Resolved out err, d) \<Rightarrow>
                   \<lparr>exit_code = 0, written = None, errors_printed = [], env_set = env,
                    final = Some (s2\<lparr>disk := d\<rparr>)\<rparr>
               | (Rejected e, d) \<Rightarrow>
                   \<lparr>exit_code = 0, written = None,
                    errors_printed =
                      [let msg = ''\<newline>Error al abrir VS Code: '' @ message e in
                       if colorOn then chalk w ''red.bold'' msg else msg],
                    env_set = env, final = Some (s2\<lparr>disk := d\<rparr>)\<rparr>)
            else
              \<lparr>exit_code = 0, written = None, errors_printed = [], env_set = env,
               final = Some s2\<rparr>)\<close>

text \<open>The \<open>try\<close> block: the tasks, then the report of success.\<close>

definition run_pipeline ::
  "world \<Rightarrow> 'a ctx_scheme \<Rightarrow> bool \<Rightarrow> (string \<times> string) list \<Rightarrow> answers \<Rightarrow> filesystem \<Rightarrow> report" where
  "run_pipeline w c colorOn env a fs =
     (let s0 = \<lparr>events = [], project_path = [], cwd = initial_cwd w, disk = fs,
                printed = [], started = []\<rparr>
      in case listr_run (tasks w (json c) colorOn a) s0 of
           (Inr u, s) \<Rightarrow>
             if json c then json_success w c env a s else text_success w c colorOn env a s
         | (Inl err, s) \<Rightarrow> failure_report w c colorOn env err s)"

text \<open>
  \<open>runCreate\<close>. \<open>Inl\<close> is an error that \<open>runCreate\<close> throws; every other end is a
  \<open>process.exit\<close>.
\<close>

definition runCreate :: "world \<Rightarrow> 'a ctx_scheme \<Rightarrow> js_error + report" where
  \<open>runCreate w c =
     (let tty = isTTY w;
          interactive = (\<not> json c \<and> \<not> nonInteractive c \<and> tty);
          colorOn = colorsEnabled w \<lparr>json = json c, noColor = noColor c, color = color c\<rparr>;
          env = (if \<not> colorOn then [(''FORCE_COLOR'', ''0''), (''NO_COLOR'', ''1'')]
                 else if color c = Some True then [(''FORCE_COLOR'', ''1'')]
                 else []);
          input = params c
      in
        if interactive then
          (case interactiveGather w input (yes c) of
             Gathered a \<Rightarrow> Inr (run_pipeline w c colorOn env a (initial_disk w))
           | Cancelled \<Rightarrow>
               Inr \<lparr>exit_code = 0, written = None, errors_printed = [], env_set = env,
                    final = None\<rparr>
           | Gather_failed e \<Rightarrow> Inl e)
        else
          let input1 = fill_defaults (nonInteractive c) input;
              missing = validateNonInteractive input1
          in
            if length missing > 0 then
              (let msg = missing_message missing in
               if json c then
                 Inr \<lparr>exit_code = 1,
                      written = Some
                        \<lparr>doc_version = ''1.0.0'', doc_command = ''create'',
                         doc_flags = (json c, nonInteractive c, yes c, verbose c),
                         doc_environment = (tty, node_version w, platform w),
                         doc_status = Some ''error'',
                         doc_input = None, doc_tasks = None, doc_result = None,
                         doc_error = Some (msg, Some ''EINVAL'', None),
                         doc_metrics = None\<rparr>,
                      errors_printed = [], env_set = env, final = None\<rparr>
               else
                 Inr \<lparr>exit_code = 1, written = None,
                      errors_printed = [if colorOn then chalk w ''red'' msg else msg],
                      env_set = env, final = None\<rparr>)
            else
              (case (if truthy (herdDir input1)
                     then (Inr (or_default (herdDir input1) []), initial_disk w)
                     else getHerdDirectory w (initial_disk w) None) of
                 (Inl e, fs) \<Rightarrow> Inl e
               | (Inr herdDirectory, fs) \<Rightarrow>
                   Inr (run_pipeline w c colorOn env
                          \<lparr>ans_projectName = projectName input1,
                           ans_starterKit = starterKit input1,
                           ans_db = db input1,
                           ans_dbConn =
                             \<lparr>conn_host = dbHost input1, conn_port = dbPort input1,
                              conn_name = dbName input1, conn_user = dbUser input1,
                              conn_password = dbPassword input1\<rparr>,
                           ans_filament =
                             \<lparr>fil_name = filamentName input1, fil_email = filamentEmail input1,
                              fil_password = filamentPassword input1\<rparr>,
                           ans_herdDir = herdDirectory\<rparr>
                          fs)))\<close>

section \<open>Example data\<close>

text \<open>A \<open>UserFactory.php\<close> whose \<open>definition\<close> returns an array with one entry.\<close>

definition example_factory :: string where
  "example_factory =
     ''    public function definition(): array\<newline>    {\<newline>        return [\<newline>'' @
     ''            '' @ [squote] @ ''name'' @ [squote] @ '' => fake()->name()\<newline>'' @
     ''        ];\<newline>    }\<newline>''"

definition example_fs :: filesystem where
  "example_fs =
     \<lparr>files = [''proj/database/factories/UserFactory.php'' \<mapsto> example_factory],
      directories = (\<lambda>p. None), write_error = (\<lambda>p. None), mkdir_error = (\<lambda>p. None)\<rparr>"

definition empty_fs :: filesystem where
  "empty_fs =
     \<lparr>files = (\<lambda>p. None), directories = (\<lambda>p. None), write_error = (\<lambda>p. None),
      mkdir_error = (\<lambda>p. None)\<rparr>"

text \<open>A \<open>phpunit.xml\<close> as a new project has it.\<close>

definition example_phpunit :: string where
  \<open>example_phpunit =
     ''<?xml version="1.0" encoding="UTF-8"?>\<newline>'' @
     ''<phpunit bootstrap="vendor/autoload.php" colors="true">\<newline>'' @
     ''    <php>\<newline>        <env name="APP_ENV" value="testing"/>\<newline>    </php>\<newline>'' @
     ''</phpunit>\<newline>''\<close>

definition example_phpunit_fs :: filesystem where
  "example_phpunit_fs =
     \<lparr>files = [''proj/phpunit.xml'' \<mapsto> example_phpunit], directories = (\<lambda>p. None),
      write_error = (\<lambda>p. None), mkdir_error = (\<lambda>p. None)\<rparr>"

text \<open>The same file with an \<open>APP_LOCALE\<close> element whose value is \<open>es\<close>.\<close>

definition example_phpunit_es :: string where
  \<open>example_phpunit_es =
     ''<?xml version="1.0" encoding="UTF-8"?>\<newline>'' @
     ''<phpunit bootstrap="vendor/autoload.php" colors="true">\<newline>'' @
     ''    <php>\<newline>        <env name="APP_ENV" value="testing"/>\<newline>'' @
     ''        <env name="APP_LOCALE" value="es"/>\<newline>    </php>\<newline>'' @
     ''</phpunit>\<newline>''\<close>

definition example_phpunit_es_fs :: filesystem where
  "example_phpunit_es_fs =
     \<lparr>files = [''proj/phpunit.xml'' \<mapsto> example_phpunit_es], directories = (\<lambda>p. None),
      write_error = (\<lambda>p. None), mkdir_error = (\<lambda>p. None)\<rparr>"

text \<open>
  A text in which the expression for the \<open>APP_LOCALE\<close> element of the create command
  matches twice.
\<close>

definition example_two_env :: string where
  \<open>example_two_env =
     ''<env'' @ [backslash] @ ''sname="APP_LOCALE"'' @ [backslash] @ ''svalue="es"/>'' @
     ''<env'' @ [backslash] @ ''sname="APP_LOCALE"'' @ [backslash] @ ''svalue="es"/>''\<close>

text \<open>
  A machine without a terminal on which every command is installed and succeeds, except
  that \<open>laravel new\<close> exits with a non-zero code and \<open>boom\<close> on its standard error.
\<close>

definition example_world :: world where
  "example_world =
     \<lparr>stdout_isTTY = False, stdin_isTTY = False,
      commandExists = (\<lambda>cmd. True),
      execa = (\<lambda>cmd fs.
        if prefix ''laravel new'' cmd
        then (Rejected \<lparr>message = ''Command failed with exit code 1'', step = None,
                        error_stdout = Some [], error_stderr = Some ''boom''\<rparr>, fs)
        else (Resolved [] [], fs)),
      elapsed = (\<lambda>cmd. 5),
      total_elapsed = 20,
      homedir = ''/home/dev'',
      initial_cwd = ''/home/dev'',
      initial_disk = empty_fs,
      detectMysqlService = (\<lambda>h p. False),
      detectPostgresService = (\<lambda>h p. False),
      interactiveGather = (\<lambda>i y. Cancelled),
      showFinalMenu = Inr ''exit'',
      chalk = (\<lambda>style s. s),
      node_version = ''v22.0.0'',
      platform = ''linux''\<rparr>"

definition no_flags :: input where
  "no_flags =
     \<lparr>projectName = None, starterKit = None, db = None, dbHost = None, dbPort = None,
      dbName = None, dbUser = None, dbPassword = None, herdDir = None, filamentName = None,
      filamentEmail = None, filamentPassword = None\<rparr>"

text \<open>\<open>--json --project-name blog\<close>.\<close>

definition example_json_ctx :: ctx where
  "example_json_ctx =
     \<lparr>json = True, noColor = None, color = None, nonInteractive = False, yes = False,
      verbose = False, params = no_flags\<lparr>projectName := Some ''blog''\<rparr>\<rparr>"


text \<open>\<open>--json\<close> alone.\<close>

definition example_bare_json_ctx :: ctx where
  "example_bare_json_ctx =
     \<lparr>json = True, noColor = None, color = None, nonInteractive = False, yes = False,
      verbose = False, params = no_flags\<rparr>"

section \<open>Properties\<close>

subsection \<open>Colours\<close>

lemma colorsEnabled_iff:
  "colorsEnabled p ctx \<longleftrightarrow>
     \<not> json ctx \<and> noColor ctx \<noteq> Some True \<and> color ctx \<noteq> Some False \<and> isTTY p"
  by (simp add: colorsEnabled_def)

text \<open>
  C7. For every combination of the flags and of the two streams, \<open>colorsEnabled\<close> is true
  exactly when structured output is off, colours are not disabled (\<open>noColor\<close> is not true
  and \<open>color\<close> is not false) and both the standard output and the standard input are a
  terminal. The force flag does not override the terminal check: the test \<open>!isTTY()\<close> comes
  before the test \<open>ctx.color === true\<close>, and the answer with \<open>color\<close> true is the answer
  with \<open>color\<close> absent.
\<close>

theorem colorsEnabled_spec:
  "(colorsEnabled p ctx \<longleftrightarrow>
      \<not> json ctx \<and> noColor ctx \<noteq> Some True \<and> color ctx \<noteq> Some False \<and>
      stdout_isTTY p \<and> stdin_isTTY p) \<and>
   colorsEnabled p (ctx\<lparr>color := Some True\<rparr>) = colorsEnabled p (ctx\<lparr>color := None\<rparr>)"
  by (simp add: colorsEnabled_def isTTY_def)

text \<open>
  With structured output off, no disable flag, the force flag set and no terminal attached,
  the rule with the override gives true and \<open>colorsEnabled\<close> returns false.
\<close>

theorem colorsEnabled_force_counterexample:
  "\<not> (colorsEnabled \<lparr>stdout_isTTY = False, stdin_isTTY = False\<rparr>
         \<lparr>json = False, noColor = None, color = Some True\<rparr> \<longleftrightarrow>
       \<not> json \<lparr>json = False, noColor = None, color = Some True\<rparr> \<and>
       noColor \<lparr>json = False, noColor = None, color = Some True\<rparr> \<noteq> Some True \<and>
       color \<lparr>json = False, noColor = None, color = Some True\<rparr> \<noteq> Some False \<and>
       (isTTY \<lparr>stdout_isTTY = False, stdin_isTTY = False\<rparr> \<or>
        color \<lparr>json = False, noColor = None, color = Some True\<rparr> = Some True))"
  by (simp add: colorsEnabled_def isTTY_def)

subsection \<open>Truncation\<close>

text \<open>The decimal rendering: digits only, no leading zero, and the value is the number.\<close>

lemma digit_cases:
  "k < 10 \<Longrightarrow>
     k = 0 \<or> k = 1 \<or> k = 2 \<or> k = 3 \<or> k = 4 \<or> k = 5 \<or> k = 6 \<or> k = 7 \<or> k = 8 \<or> k = (9::nat)"
  by arith

lemma digit_mem: "k < 10 \<Longrightarrow> ''0123456789'' ! k \<in> set ''0123456789''"
  by (rule nth_mem) simp

lemma digit_value: "k < 10 \<Longrightarrow> of_char (''0123456789'' ! k) - 48 = k"
  by (drule digit_cases, elim disjE) simp_all

lemma digit_zero: "k < 10 \<Longrightarrow> (''0123456789'' ! k = CHR ''0'') = (k = 0)"
  by (drule digit_cases, elim disjE) simp_all

lemma nat_to_string_not_Nil: "nat_to_string n \<noteq> []"
  by (subst nat_to_string.simps) simp

lemma nat_to_string_digits: "set (nat_to_string n) \<subseteq> set ''0123456789''"
proof (induction n rule: nat_to_string.induct)
  case (1 n)
  show ?case
  proof (cases "n < 10")
    case True
    then show ?thesis using digit_mem [of n] by (subst nat_to_string.simps) simp
  next
    case False
    have "n mod 10 < 10" by simp
    from digit_mem [OF this] 1 [OF False] False show ?thesis
      by (subst nat_to_string.simps) simp
  qed
qed

lemma nat_to_string_hd: "(hd (nat_to_string n) = CHR ''0'') = (n = 0)"
proof (induction n rule: nat_to_string.induct)
  case (1 n)
  show ?case
  proof (cases "n < 10")
    case True
    then show ?thesis using digit_zero [of n] by (subst nat_to_string.simps) simp
  next
    case False
    have "hd (nat_to_string n) = hd (nat_to_string (n div 10))"
      using False nat_to_string_not_Nil [of "n div 10"]
      by (subst nat_to_string.simps) simp
    then show ?thesis using 1 [OF False] False by simp
  qed
qed

lemma nat_to_string_value:
  "foldl (\<lambda>a c. 10 * a + (of_char c - 48)) 0 (nat_to_string n) = n"
proof (induction n rule: nat_to_string.induct)
  case (1 n)
  show ?case
  proof (cases "n < 10")
    case True
    then show ?thesis using digit_value [of n] by (subst nat_to_string.simps) simp
  next
    case False
    have "n mod 10 < 10" by simp
    from digit_value [OF this] 1 [OF False] False show ?thesis
      by (subst nat_to_string.simps) simp
  qed
qed

text \<open>
  C4. A captured stream of length \<open>L > 8192\<close> is cut to its first 8192 code units followed
  by the marker: a backslash, \<open>n... [truncated \<close>, the decimal rendering of \<open>L - 8192\<close> and
  \<open> chars]\<close>. A stream of length at most 8192 is returned unchanged, and an absent stream
  gives the empty string. The decimal rendering of \<open>n\<close> is not empty, has only digits,
  starts with \<open>0\<close> only for \<open>n = 0\<close>, where it is \<open>0\<close>, and read in base ten it is \<open>n\<close>.
\<close>

theorem truncate_spec:
  "truncate None = [] \<and>
   truncate (Some s) =
     (if length s > 8192
      then take 8192 s @ [backslash] @ ''n... [truncated '' @
           nat_to_string (length s - 8192) @ '' chars]''
      else s) \<and>
   nat_to_string 0 = ''0'' \<and>
   nat_to_string n \<noteq> [] \<and>
   set (nat_to_string n) \<subseteq> set ''0123456789'' \<and>
   (hd (nat_to_string n) = CHR ''0'') = (n = 0) \<and>
   foldl (\<lambda>a c. 10 * a + (of_char c - 48)) 0 (nat_to_string n) = n"
proof -
  have 1: "truncate None = []" by (simp add: truncate_def truncate_max_def)
  have 2: "truncate (Some s) =
     (if length s > 8192
      then take 8192 s @ [backslash] @ ''n... [truncated '' @
           nat_to_string (length s - 8192) @ '' chars]''
      else s)"
    by (auto simp: truncate_def truncate_max_def truncate_marker_def)
  have 3: "nat_to_string 0 = ''0''" by (subst nat_to_string.simps) simp
  from 1 2 3 nat_to_string_not_Nil nat_to_string_digits nat_to_string_hd nat_to_string_value
  show ?thesis by blast
qed

theorem truncate_spec_witness:
  "truncate (Some (replicate 9426 (CHR ''a''))) =
     replicate 8192 (CHR ''a'') @ [backslash] @ ''n... [truncated 1234 chars]'' \<and>
   truncate (Some (replicate 8192 (CHR ''a''))) = replicate 8192 (CHR ''a'') \<and>
   truncate (Some ''abc'') = ''abc''"
proof -
  have n: "nat_to_string 1234 = ''1234''" by code_simp
  from truncate_spec [of "replicate 9426 (CHR ''a'')" 0]
       truncate_spec [of "replicate 8192 (CHR ''a'')" 0]
       truncate_spec [of "''abc''" 0] n
  show ?thesis by simp
qed

subsection \<open>The environment file\<close>


lemma split_on_not_Nil [simp]: "split_on c s \<noteq> []"
  by (induction s) (auto split: list.splits)

lemma split_on_no_sep: "l \<in> set (split_on c s) \<Longrightarrow> c \<notin> set l"
  by (induction s arbitrary: l) (auto split: list.splits if_splits)

lemma hd_split_on: "hd (split_on c s) = takeWhile (\<lambda>x. x \<noteq> c) s"
  by (induction s) (auto split: list.splits)

lemma split_on_append_sep:
  "c \<notin> set l \<Longrightarrow> split_on c (l @ c # s) = l # split_on c s"
  by (induction l) (auto split: list.splits)

lemma split_on_no_sep_id: "c \<notin> set l \<Longrightarrow> split_on c l = [l]"
  by (induction l) (auto split: list.splits)

lemma split_on_join:
  "ls \<noteq> [] \<Longrightarrow> \<forall>l \<in> set ls. c \<notin> set l \<Longrightarrow> split_on c (join_with [c] ls) = ls"
proof (induction ls)
  case Nil then show ?case by simp
next
  case (Cons l ls)
  show ?case
  proof (cases ls)
    case Nil then show ?thesis using Cons.prems by (simp add: split_on_no_sep_id)
  next
    case (Cons m ms)
    then have "split_on c (join_with [c] ls) = ls" using Cons.IH Cons.prems by simp
    then show ?thesis using Cons Cons.prems by (simp add: split_on_append_sep)
  qed
qed

lemma str_includes_iff: "str_includes n s \<longleftrightarrow> (\<exists>a b. s = a @ n @ b)"
proof (induction s)
  case Nil then show ?case by auto
next
  case (Cons c cs)
  show ?case
  proof
    assume "str_includes n (c # cs)"
    then consider "prefix n (c # cs)" | "str_includes n cs" by auto
    then show "\<exists>a b. c # cs = a @ n @ b"
    proof cases
      case 1 then show ?thesis by (metis append_Nil prefixE)
    next
      case 2 then obtain a b where "cs = a @ n @ b" using Cons by auto
      then have "c # cs = (c # a) @ n @ b" by simp
      then show ?thesis by blast
    qed
  next
    assume "\<exists>a b. c # cs = a @ n @ b"
    then obtain a b where ab: "c # cs = a @ n @ b" by auto
    show "str_includes n (c # cs)"
    proof (cases a)
      case Nil
      then have "prefix n (c # cs)" using ab by (simp add: prefix_def)
      then show ?thesis by simp
    next
      case (Cons x xs)
      then have "cs = xs @ n @ b" using ab by simp
      then show ?thesis using Cons.IH by auto
    qed
  qed
qed

lemma str_includes_single: "str_includes [c] s \<longleftrightarrow> c \<in> set s"
  by (induction s) (auto simp: prefix_def)

lemma not_space_eq [simp]: "\<not> is_space CHR ''=''"
  by (simp add: is_space_def)

lemma trim_key_line:
  assumes "k = [] \<or> \<not> is_space (hd k)"
  shows "trim (k @ CHR ''='' # v) = k @ CHR ''='' # trimEnd v"
proof -
  have "trimStart (k @ CHR ''='' # v) = k @ CHR ''='' # v"
    using assms by (cases k) (auto simp: trimStart_def)
  moreover have "trimEnd (k @ CHR ''='' # v) = k @ CHR ''='' # trimEnd v"
    by (simp add: trimEnd_def dropWhile_append)
  ultimately show ?thesis by (simp add: trim_def)
qed

lemma map_line_key_line:
  assumes "plain_key k" and "map_of updates k = Some v"
  shows "map_line updates (k @ CHR ''='' # w) = (Some k, k @ CHR ''='' # v)"
proof -
  let ?t = "k @ CHR ''='' # trimEnd w"
  have t: "trim (k @ CHR ''='' # w) = ?t"
    using assms(1) trim_key_line[of k w] by (auto simp: plain_key_def)
  have "\<not> prefix ''#'' ?t"
    using assms(1) by (cases k) (auto simp: plain_key_def)
  moreover have "str_includes ''='' ?t"
    by (simp add: str_includes_single)
  moreover have "hd (split_on CHR ''='' ?t) = k"
    using assms(1) by (auto simp: hd_split_on plain_key_def takeWhile_tail)
  ultimately show ?thesis
    using assms(2) t by (simp add: map_line_def)
qed

lemma map_line_cases:
  "map_line updates l = (None, l) \<or>
   (\<exists>k v. map_of updates k = Some v \<and> map_line updates l = (Some k, k @ ''='' @ v))"
  by (auto simp: map_line_def Let_def split: option.splits)

lemma map_line_snd_fixed:
  assumes "\<forall>(k, v) \<in> set updates. plain_key k"
  shows "map_line updates (snd (map_line updates l)) = map_line updates l"
proof -
  from map_line_cases [of updates l] show ?thesis
  proof
    assume "map_line updates l = (None, l)"
    then show ?thesis by simp
  next
    assume "\<exists>k v. map_of updates k = Some v \<and> map_line updates l = (Some k, k @ ''='' @ v)"
    then obtain k v where kv: "map_of updates k = Some v"
      and l: "map_line updates l = (Some k, k @ ''='' @ v)" by blast
    from kv have "(k, v) \<in> set updates" by (rule map_of_SomeD)
    with assms have "plain_key k" by auto
    then show ?thesis using kv l by (simp add: map_line_key_line)
  qed
qed

lemma set_keysFound:
  "set (List.map_filter fst (map (map_line updates) ls)) =
     {k. \<exists>l \<in> set ls. fst (map_line updates l) = Some k}"
  by (induction ls) (auto simp: List.map_filter_simps split: option.splits)

lemma updateEnvValues_lines_alt:
  "updateEnvValues_lines content updates =
     map (\<lambda>l. snd (map_line updates l)) (split_on CHR 0x0A content) @
     map (\<lambda>(key, v). key @ ''='' @ v)
       (filter (\<lambda>(key, v). \<not> (\<exists>l \<in> set (split_on CHR 0x0A content). fst (map_line updates l) = Some key)) updates)"
  unfolding updateEnvValues_lines_def Let_def set_keysFound by (simp add: comp_def)

lemma updateEnvValues_lines_not_Nil: "updateEnvValues_lines content updates \<noteq> []"
  by (simp add: updateEnvValues_lines_alt)

lemma updateEnvValues_lines_no_newline:
  assumes "\<forall>(k, v) \<in> set updates. plain_key k \<and> CHR 0x0A \<notin> set v"
    and "l \<in> set (updateEnvValues_lines content updates)"
  shows "CHR 0x0A \<notin> set l"
proof -
  have kv: "CHR 0x0A \<notin> set (k @ CHR ''='' # v)" if "(k, v) \<in> set updates" for k v
    using assms(1) that by (auto simp: plain_key_def)
  from assms(2) consider
      m where "m \<in> set (split_on CHR 0x0A content)" "l = snd (map_line updates m)"
    | k v where "(k, v) \<in> set updates" "l = k @ CHR ''='' # v"
    by (auto simp: updateEnvValues_lines_alt)
  then show ?thesis
  proof cases
    case 1
    from map_line_cases [of updates m] show ?thesis
    proof
      assume "map_line updates m = (None, m)"
      then show ?thesis using 1 by (simp add: split_on_no_sep)
    next
      assume "\<exists>k v. map_of updates k = Some v \<and> map_line updates m = (Some k, k @ ''='' @ v)"
      then obtain k v where "map_of updates k = Some v" "l = k @ CHR ''='' # v"
        using 1 by auto
      then show ?thesis using kv [of k v] by (auto dest: map_of_SomeD)
    qed
  next
    case 2 then show ?thesis using kv by blast
  qed
qed

lemma split_updateEnvValues_content:
  assumes "\<forall>(k, v) \<in> set updates. plain_key k \<and> CHR 0x0A \<notin> set v"
  shows "split_on CHR 0x0A (updateEnvValues_content content updates) =
         updateEnvValues_lines content updates"
  unfolding updateEnvValues_content_def
  using updateEnvValues_lines_no_newline [OF assms] updateEnvValues_lines_not_Nil
  by (intro split_on_join) auto

lemma updateEnvValues_lines_twice:
  assumes d: "distinct (map fst updates)"
    and ok: "\<forall>(k, v) \<in> set updates. plain_key k \<and> CHR 0x0A \<notin> set v"
  shows "updateEnvValues_lines (updateEnvValues_content content updates) updates =
         updateEnvValues_lines content updates"
proof -
  let ?ls = "split_on CHR 0x0A content"
  let ?L = "updateEnvValues_lines content updates"
  have pk: "\<forall>(k, v) \<in> set updates. plain_key k" using ok by auto
  have fixed: "snd (map_line updates l) = l" if "l \<in> set ?L" for l
  proof -
    from that consider
        m where "m \<in> set ?ls" "l = snd (map_line updates m)"
      | k v where "(k, v) \<in> set updates" "l = k @ CHR ''='' # v"
      by (auto simp: updateEnvValues_lines_alt)
    then show ?thesis
    proof cases
      case 1 then show ?thesis
        using map_line_cases [of updates m] map_line_snd_fixed [OF pk, of m] by auto
    next
      case 2
      then have "map_of updates k = Some v" using d by simp
      moreover have "plain_key k" using 2 pk by auto
      ultimately show ?thesis using 2 by (simp add: map_line_key_line)
    qed
  qed
  have found: "\<exists>l \<in> set ?L. fst (map_line updates l) = Some k" if "(k, v) \<in> set updates" for k v
  proof (cases "\<exists>m \<in> set ?ls. fst (map_line updates m) = Some k")
    case True
    then obtain m where m: "m \<in> set ?ls" "fst (map_line updates m) = Some k" by blast
    then have "snd (map_line updates m) \<in> set ?L" by (simp add: updateEnvValues_lines_alt)
    moreover have "fst (map_line updates (snd (map_line updates m))) = Some k"
      using map_line_snd_fixed [OF pk, of m] m by simp
    ultimately show ?thesis by blast
  next
    case False
    then have "k @ CHR ''='' # v \<in> set ?L"
      using that by (force simp: updateEnvValues_lines_alt)
    moreover have "map_of updates k = Some v" using d that by simp
    moreover have "plain_key k" using that pk by auto
    ultimately show ?thesis by (metis fst_conv map_line_key_line)
  qed
  have "filter (\<lambda>(key, v). \<not> (\<exists>l \<in> set ?L. fst (map_line updates l) = Some key)) updates = []"
    using found by (auto simp: filter_empty_conv)
  moreover have "map (\<lambda>l. snd (map_line updates l)) ?L = ?L"
    using fixed by (simp add: map_idI)
  ultimately show ?thesis
    using updateEnvValues_lines_alt [of "updateEnvValues_content content updates" updates]
    by (simp add: split_updateEnvValues_content [OF ok])
qed

text \<open>
  C5 (as amended). For update keys that contain neither a line feed nor \<open>=\<close> and start
  with neither white space nor \<open>#\<close>, and update values without a line feed, merging
  twice gives the same content as merging once; and every line that is a comment, has no
  \<open>=\<close>, or whose key is not among the updates is the same line, at the same position, of the
  merged content.
\<close>

theorem updateEnvValues_twice:
  assumes "distinct (map fst updates)"
    and "\<forall>(k, v) \<in> set updates. plain_key k \<and> CHR 0x0A \<notin> set v"
  shows "updateEnvValues_content (updateEnvValues_content content updates) updates =
           updateEnvValues_content content updates \<and>
         (\<forall>i < length (split_on CHR 0x0A content).
            (let line = split_on CHR 0x0A content ! i; trimmedLine = trim line in
             prefix ''#'' trimmedLine \<or> \<not> str_includes ''='' trimmedLine \<or>
             map_of updates (hd (split_on CHR ''='' trimmedLine)) = None
             \<longrightarrow> split_on CHR 0x0A (updateEnvValues_content content updates) ! i = line))"
proof
  show "updateEnvValues_content (updateEnvValues_content content updates) updates =
        updateEnvValues_content content updates"
    using updateEnvValues_lines_twice [OF assms] by (simp add: updateEnvValues_content_def)
next
  let ?ls = "split_on CHR 0x0A content"
  have "split_on CHR 0x0A (updateEnvValues_content content updates) ! i = ?ls ! i"
    if i: "i < length ?ls"
      and u: "prefix ''#'' (trim (?ls ! i)) \<or> \<not> str_includes ''='' (trim (?ls ! i)) \<or>
             map_of updates (hd (split_on CHR ''='' (trim (?ls ! i)))) = None" for i
  proof -
    have "map_line updates (?ls ! i) = (None, ?ls ! i)"
      using u by (auto simp: map_line_def Let_def)
    then show ?thesis
      using i by (simp add: split_updateEnvValues_content [OF assms(2)]
          updateEnvValues_lines_alt nth_append)
  qed
  then show "\<forall>i < length ?ls.
            (let line = ?ls ! i; trimmedLine = trim line in
             prefix ''#'' trimmedLine \<or> \<not> str_includes ''='' trimmedLine \<or>
             map_of updates (hd (split_on CHR ''='' trimmedLine)) = None
             \<longrightarrow> split_on CHR 0x0A (updateEnvValues_content content updates) ! i = line)"
    by (simp add: Let_def)
qed

theorem updateEnvValues_twice_witness:
  "updateEnvValues_content
     (updateEnvValues_content ''APP_ENV=local\<newline># comment\<newline>''
        [(''APP_ENV'', ''production''), (''APP_LOCALE'', ''es'')])
     [(''APP_ENV'', ''production''), (''APP_LOCALE'', ''es'')] =
   updateEnvValues_content ''APP_ENV=local\<newline># comment\<newline>''
     [(''APP_ENV'', ''production''), (''APP_LOCALE'', ''es'')] \<and>
   split_on CHR 0x0A
     (updateEnvValues_content ''APP_ENV=local\<newline># comment\<newline>''
        [(''APP_ENV'', ''production''), (''APP_LOCALE'', ''es'')]) ! 1 = ''# comment''"
proof -
  let ?C = "''APP_ENV=local\<newline># comment\<newline>''"
  let ?U = "[(''APP_ENV'', ''production''), (''APP_LOCALE'', ''es'')]"
  have d: "distinct (map fst ?U)" by simp
  have ok: "\<forall>(k, v) \<in> set ?U. plain_key k \<and> CHR 0x0A \<notin> set v"
    by (simp add: plain_key_def is_space_def)
  have ls: "split_on CHR 0x0A ?C = [''APP_ENV=local'', ''# comment'', []]" by code_simp
  have t: "trim ''# comment'' = ''# comment''" by code_simp
  from updateEnvValues_twice [OF d ok, of ?C]
  have 1: "updateEnvValues_content (updateEnvValues_content ?C ?U) ?U = updateEnvValues_content ?C ?U"
    and 2: "\<forall>i < length (split_on CHR 0x0A ?C).
            (let line = split_on CHR 0x0A ?C ! i; trimmedLine = trim line in
             prefix ''#'' trimmedLine \<or> \<not> str_includes ''='' trimmedLine \<or>
             map_of ?U (hd (split_on CHR ''='' trimmedLine)) = None
             \<longrightarrow> split_on CHR 0x0A (updateEnvValues_content ?C ?U) ! i = line)"
    by blast+
  from 2 [THEN spec, of 1]
  have "split_on CHR 0x0A (updateEnvValues_content ?C ?U) ! 1 = ''# comment''"
    unfolding ls by (simp add: t)
  with 1 show ?thesis by blast
qed

text \<open>
  C5 as stated fails: a value with a line feed is written as two lines, and the second
  merge keeps the second of them as a line of its own.
\<close>

theorem updateEnvValues_twice_counterexample:
  "updateEnvValues_content
     (updateEnvValues_content ''DB_PASSWORD='' [(''DB_PASSWORD'', ''a\<newline>b'')])
     [(''DB_PASSWORD'', ''a\<newline>b'')] \<noteq>
   updateEnvValues_content ''DB_PASSWORD='' [(''DB_PASSWORD'', ''a\<newline>b'')]"
  by code_simp

text \<open>
  C6 (as amended). On \<open>"APP_ENV=local\n# comment\n"\<close> with the updates
  \<open>{APP_ENV: "production", APP_LOCALE: "es"}\<close> the merge writes
  \<open>"APP_ENV=production\n# comment\n\nAPP_LOCALE=es"\<close>: the empty last element that
  \<open>split\<close> gives for the final line feed stays a line, so the new key comes after an empty
  line.
\<close>

theorem updateEnvValues_scenario:
  "updateEnvValues_content ''APP_ENV=local\<newline># comment\<newline>''
     [(''APP_ENV'', ''production''), (''APP_LOCALE'', ''es'')] =
   ''APP_ENV=production\<newline># comment\<newline>\<newline>APP_LOCALE=es''"
  by code_simp

text \<open>C6 as stated fails: the content of the claim has no empty line.\<close>

theorem updateEnvValues_scenario_counterexample:
  "updateEnvValues_content ''APP_ENV=local\<newline># comment\<newline>''
     [(''APP_ENV'', ''production''), (''APP_LOCALE'', ''es'')] \<noteq>
   ''APP_ENV=production\<newline># comment\<newline>APP_LOCALE=es''"
  by code_simp

subsection \<open>Running a command\<close>

text \<open>
  C3. \<open>run\<close> never throws: it returns an object. When the command succeeds the status is
  \<open>success\<close>, with the duration and both streams truncated; when \<open>execa\<close> rejects (a
  non-zero exit or a failure to spawn) the status is \<open>error\<close>, with the duration, the
  truncated \<open>stdout\<close> of the error, its truncated \<open>stderr\<close> (its message when it has no
  \<open>stderr\<close>) and the error itself.
\<close>

theorem run_never_throws:
  "\<exists>r. fst (run w cmd fs) = Inr r \<and>
       r = (case fst (execa w cmd fs) of
              Resolved out err \<Rightarrow>
                \<lparr>status = ''success'', durationMs = Some (elapsed w cmd),
                 stdout = Some (truncate (Some out)), stderr = Some (truncate (Some err)),
                 error = None\<rparr>
            | Rejected e \<Rightarrow>
                \<lparr>status = ''error'', durationMs = Some (elapsed w cmd),
                 stdout = Some (truncate (error_stdout e)),
                 stderr = Some (truncate (if truthy (error_stderr e) then error_stderr e
                                          else Some (message e))),
                 error = Some e\<rparr>)"
  by (simp add: run_def try_catch_def split: prod.splits execa_result.splits)

text \<open>A command that exits non-zero with \<open>boom\<close> on its standard error.\<close>

lemma run_boom:
  assumes "fst (execa w cmd fs) = Rejected e" and "error_stderr e = Some ''boom''"
  shows "\<exists>r. fst (run w cmd fs) = Inr r \<and> status r = ''error'' \<and> stderr r = Some ''boom'' \<and>
             stdout r = Some (truncate (error_stdout e)) \<and> error r = Some e"
proof (cases "execa w cmd fs")
  case (Pair res fs')
  with assms(1) have "res = Rejected e" by simp
  with Pair assms(2) show ?thesis
    by (simp add: run_def try_catch_def truncate_def truncate_max_def)
qed

subsection \<open>The UserFactory patch\<close>

lemma injection_includes:
  "str_includes ''two_factor_secret'' (a @ injection indent @ b)"
proof -
  have "a @ injection indent @ b =
        (a @ indent @ ''    '' @ [squote]) @ ''two_factor_secret'' @
        ([squote] @ '' => null,\<newline>'' @
         injection_line (indent @ ''    '') ''two_factor_recovery_codes'' @
         injection_line (indent @ ''    '') ''two_factor_confirmed_at'' @ b)"
    by (simp add: injection_def injection_line_def)
  then show ?thesis unfolding str_includes_iff by blast
qed

lemma twoFactorDefaults_content_new:
  assumes "twoFactorDefaults_content content = Inr newContent"
  shows "str_includes ''two_factor_secret'' newContent"
proof -
  have "str_includes ''two_factor_secret'' (a @ c @ injection i @ b)" for a c i b
    using injection_includes [of "a @ c" i b] by simp
  with assms show ?thesis
    by (auto simp: twoFactorDefaults_content_def Let_def split: if_splits option.splits)
qed

lemma twoFactorDefaults_content_again:
  "str_includes ''two_factor_secret'' content \<Longrightarrow>
   twoFactorDefaults_content content = Inl already_present"
  by (simp add: twoFactorDefaults_content_def)

text \<open>
  C10. Whatever \<open>patchUserFactoryTwoFactorDefaults\<close> returns with \<open>patched: false\<close>, it
  returns it with the file system it was given and with one of the five reasons; it raises
  only when the write of the patched content raises, so none of the five conditions is an
  exception; and after a patch that was written, a second call returns
  \<open>already_present\<close> and writes nothing.
\<close>

theorem patchUserFactory_skips_without_writing:
  assumes "patchUserFactoryTwoFactorDefaults fs projectPath = (res, fs')"
  shows "(\<forall>r. res = Inr r \<and> \<not> patched r \<longrightarrow>
            fs' = fs \<and>
            reason r \<in> {Some factory_not_found, Some already_present, Some array_not_found,
                         Some array_end_not_found, Some replace_noop}) \<and>
         (\<forall>e. res = Inl e \<longrightarrow>
            write_error fs (path_join [projectPath, ''database'', ''factories'', ''UserFactory.php''])
              = Some (message e)) \<and>
         (\<forall>r. res = Inr r \<and> patched r \<longrightarrow>
            patchUserFactoryTwoFactorDefaults fs' projectPath =
              (Inr \<lparr>patched = False, reason = Some already_present\<rparr>, fs'))"
proof -
  let ?p = "path_join [projectPath, ''database'', ''factories'', ''UserFactory.php'']"
  show ?thesis
  proof (cases "files fs ?p")
    case None
    then show ?thesis
      using assms by (auto simp: patchUserFactoryTwoFactorDefaults_def readFile_def not_patched_def)
  next
    case (Some content)
    show ?thesis
    proof (cases "twoFactorDefaults_content content")
      case (Inl r)
      then have "res = Inr (not_patched r)" "fs' = fs"
        using assms Some by (auto simp: patchUserFactoryTwoFactorDefaults_def readFile_def)
      then show ?thesis by (cases r) (auto simp: not_patched_def)
    next
      case (Inr newContent)
      note new = twoFactorDefaults_content_new [OF Inr]
      show ?thesis
      proof (cases "write_error fs ?p")
        case None
        then have r: "res = Inr \<lparr>patched = True, reason = None\<rparr>"
          and f: "fs' = fs\<lparr>files := (files fs)(?p \<mapsto> newContent)\<rparr>"
          using assms Some Inr
          by (auto simp: patchUserFactoryTwoFactorDefaults_def readFile_def writeFile_def)
        have "patchUserFactoryTwoFactorDefaults fs' projectPath =
              (Inr \<lparr>patched = False, reason = Some already_present\<rparr>, fs')"
          using new f
          by (simp add: patchUserFactoryTwoFactorDefaults_def readFile_def
              twoFactorDefaults_content_again not_patched_def)
        then show ?thesis using r by simp
      next
        case (Some msg)
        then show ?thesis
          using assms \<open>files fs ?p = Some content\<close> Inr
          by (auto simp: patchUserFactoryTwoFactorDefaults_def readFile_def writeFile_def
              new_Error_def)
      qed
    qed
  qed
qed

theorem patchUserFactory_skips_without_writing_witness:
  "fst (patchUserFactoryTwoFactorDefaults example_fs ''proj'') =
     Inr \<lparr>patched = True, reason = None\<rparr> \<and>
   fst (patchUserFactoryTwoFactorDefaults
          (snd (patchUserFactoryTwoFactorDefaults example_fs ''proj'')) ''proj'') =
     Inr \<lparr>patched = False, reason = Some already_present\<rparr> \<and>
   patchUserFactoryTwoFactorDefaults empty_fs ''proj'' =
     (Inr \<lparr>patched = False, reason = Some factory_not_found\<rparr>, empty_fs)"
proof -
  obtain res fs' where p: "patchUserFactoryTwoFactorDefaults example_fs ''proj'' = (res, fs')"
    by (cases "patchUserFactoryTwoFactorDefaults example_fs ''proj''")
  have r: "fst (patchUserFactoryTwoFactorDefaults example_fs ''proj'') =
           Inr \<lparr>patched = True, reason = None\<rparr>"
    by code_simp
  with p have "res = Inr \<lparr>patched = True, reason = None\<rparr>" by simp
  with patchUserFactory_skips_without_writing [OF p]
  have 2: "patchUserFactoryTwoFactorDefaults fs' ''proj'' =
        (Inr \<lparr>patched = False, reason = Some already_present\<rparr>, fs')"
    by simp
  obtain res0 fs0 where q: "patchUserFactoryTwoFactorDefaults empty_fs ''proj'' = (res0, fs0)"
    by (cases "patchUserFactoryTwoFactorDefaults empty_fs ''proj''")
  have "fst (patchUserFactoryTwoFactorDefaults empty_fs ''proj'') =
        Inr \<lparr>patched = False, reason = Some factory_not_found\<rparr>"
    by code_simp
  with q have r0: "res0 = Inr \<lparr>patched = False, reason = Some factory_not_found\<rparr>" by simp
  with patchUserFactory_skips_without_writing [OF q] have "fs0 = empty_fs" by simp
  with p q r r0 2 show ?thesis by simp
qed

text \<open>
  Every condition under which nothing is patched is returned as data, whether or not the
  file can be written: a missing file, and each reason that the content gives.
\<close>

lemma patchUserFactory_not_found:
  assumes "files fs (path_join [projectPath, ''database'', ''factories'', ''UserFactory.php'']) =
           None"
  shows "patchUserFactoryTwoFactorDefaults fs projectPath =
         (Inr \<lparr>patched = False, reason = Some factory_not_found\<rparr>, fs)"
  using assms
  by (simp add: patchUserFactoryTwoFactorDefaults_def readFile_def not_patched_def)

lemma patchUserFactory_skip:
  assumes "files fs (path_join [projectPath, ''database'', ''factories'', ''UserFactory.php'']) =
           Some content"
    and "twoFactorDefaults_content content = Inl r"
  shows "patchUserFactoryTwoFactorDefaults fs projectPath =
         (Inr \<lparr>patched = False, reason = Some r\<rparr>, fs)"
  using assms
  by (simp add: patchUserFactoryTwoFactorDefaults_def readFile_def not_patched_def)

subsection \<open>The phpunit.xml patch\<close>

lemma to_upper_lt [simp]: "to_upper c = CHR ''<'' \<longleftrightarrow> c = CHR ''<''"
  by (simp add: to_upper_def split: option.splits)

lemma to_upper_lt' [simp]: "CHR ''<'' = to_upper c \<longleftrightarrow> c = CHR ''<''"
  using to_upper_lt [of c] by metis

lemma to_upper_gt [simp]: "to_upper c = CHR ''>'' \<longleftrightarrow> c = CHR ''>''"
  by (simp add: to_upper_def split: option.splits)

lemma to_upper_gt' [simp]: "CHR ''>'' = to_upper c \<longleftrightarrow> c = CHR ''>''"
  using to_upper_gt [of c] by metis

lemma to_upper_const [simp]:
  "to_upper CHR ''<'' = CHR ''<''" "to_upper CHR ''>'' = CHR ''>''"
  "to_upper CHR ''p'' = CHR ''P''" "to_upper CHR ''h'' = CHR ''H''"
  "to_upper CHR ''u'' = CHR ''U''" "to_upper CHR ''n'' = CHR ''N''"
  "to_upper CHR ''i'' = CHR ''I''" "to_upper CHR ''t'' = CHR ''T''"
  "to_upper CHR ''e'' = CHR ''E''" "to_upper CHR ''v'' = CHR ''V''"
  by (simp_all add: to_upper_def)

text \<open>Expressions that need a backslash leave a text without one alone.\<close>

lemma regex_replace_id:
  assumes "\<And>p t. m p t \<noteq> None \<Longrightarrow> backslash \<in> set t" and "backslash \<notin> set s"
  shows "regex_replace m f prev s = s"
  using assms(2)
proof (induction s arbitrary: prev)
  case Nil
  then show ?case using assms(1) [of prev "[]"] by (auto split: option.splits)
next
  case (Cons c cs)
  then have "m prev (c # cs) = None" using assms(1) [of prev "c # cs"] by blast
  then show ?case using Cons by simp
qed

lemma colorsRe_backslash: "colorsRe p t \<noteq> None \<Longrightarrow> backslash \<in> set t"
proof -
  assume "colorsRe p t \<noteq> None"
  then have "prefix [backslash] (drop 6 t)" by (auto simp: colorsRe_def split: if_splits)
  then have "backslash \<in> set (drop 6 t)" by (auto simp: prefix_def)
  then show ?thesis by (meson in_set_dropD)
qed

lemma envRe_backslash: "envRe p t \<noteq> None \<Longrightarrow> backslash \<in> set t"
proof -
  assume "envRe p t \<noteq> None"
  then have "prefix [backslash] (drop 4 t)" by (auto simp: envRe_def split: if_splits)
  then have "backslash \<in> set (drop 4 t)" by (auto simp: prefix_def)
  then show ?thesis by (meson in_set_dropD)
qed


lemma prefix_ci_Cons:
  "prefix_ci (p # ps) s \<longleftrightarrow> (\<exists>c cs. s = c # cs \<and> to_upper p = to_upper c \<and> prefix_ci ps cs)"
  by (cases s) auto

lemma prefix_ci_length: "prefix_ci p s \<Longrightarrow> length p \<le> length s"
  by (induction p s rule: prefix_ci.induct) auto

lemma prefix_ci_append: "length p \<le> length a \<Longrightarrow> prefix_ci p (a @ b) \<longleftrightarrow> prefix_ci p a"
  by (induction p a rule: prefix_ci.induct) auto

lemma drop_takeWhile_prefix:
  "prefix [x] (drop (length (takeWhile (\<lambda>c. c \<noteq> x) xs)) xs) \<longleftrightarrow> x \<in> set xs"
  by (induction xs) auto

lemma phpunitRe_iff:
  "phpunitRe prev s \<noteq> None \<longleftrightarrow> prefix_ci ''<phpunit'' s \<and> CHR ''>'' \<in> set (drop 8 s)"
proof -
  have "drop (8 + n) s = drop n (drop 8 s)" for n by (simp add: add.commute)
  then show ?thesis
    using drop_takeWhile_prefix [of "CHR ''>''" "drop 8 s"]
    by (simp add: phpunitRe_def Let_def)
qed

lemma phpunitRe_None_iff:
  "phpunitRe prev s = None \<longleftrightarrow> \<not> (prefix_ci ''<phpunit'' s \<and> CHR ''>'' \<in> set (drop 8 s))"
  using phpunitRe_iff [of prev s] by blast

lemma phpunitRe_SomeD:
  assumes "phpunitRe prev s = Some n"
  shows "n = 9 + length (takeWhile (\<lambda>c. c \<noteq> CHR ''>'') (drop 8 s))"
    and "s = take 8 s @ takeWhile (\<lambda>c. c \<noteq> CHR ''>'') (drop 8 s) @ CHR ''>'' # drop n s"
    and "length (take 8 s) = 8"
proof -
  let ?Q = "\<lambda>c. c \<noteq> CHR ''>''"
  define a where "a = takeWhile ?Q (drop 8 s)"
  define t where "t = drop 8 s"
  from assms have "phpunitRe prev s \<noteq> None" by simp
  then have p: "prefix_ci ''<phpunit'' s" and g: "CHR ''>'' \<in> set t"
    unfolding phpunitRe_iff t_def by blast+
  from assms p have n: "n = 9 + length a"
    unfolding phpunitRe_def Let_def a_def by (simp split: if_splits)
  then show "n = 9 + length (takeWhile ?Q (drop 8 s))" by (simp add: a_def)
  from prefix_ci_length [OF p] show "length (take 8 s) = 8" by simp
  from g have ne: "dropWhile ?Q t \<noteq> []" by simp
  then obtain h r where hr: "dropWhile ?Q t = h # r"
    by (cases "dropWhile ?Q t") auto
  from hd_dropWhile [OF ne] hr have h: "h = CHR ''>''" by simp
  have "a = takeWhile ?Q t" by (simp add: a_def t_def)
  then have d: "t = a @ CHR ''>'' # r"
    by (metis takeWhile_dropWhile_id hr h)
  have "drop n s = drop (Suc (length a)) t"
    unfolding n t_def by simp
  also have "\<dots> = r" unfolding d by simp
  finally have dn: "drop n s = r" .
  have "s = take 8 s @ t" by (simp add: t_def)
  also have "\<dots> = take 8 s @ a @ CHR ''>'' # drop n s" unfolding dn d ..
  finally show "s = take 8 s @ takeWhile ?Q (drop 8 s) @ CHR ''>'' # drop n s"
    unfolding a_def .
qed

lemma regex_replace_phpunitRe_prev [simp]:
  "regex_replace phpunitRe f (Some c) s = regex_replace phpunitRe f None s"
  by (cases s) (simp_all add: phpunitRe_def)

lemma regex_replace_phpRe_prev [simp]:
  "regex_replace phpRe f (Some c) s = regex_replace phpRe f None s"
  by (cases s) (simp_all add: phpRe_def)


lemma colors_callback_plain:
  assumes "backslash \<notin> set mt"
  shows \<open>colors_callback mt =
     (if \<not> str_includes ''colors='' (take (length mt - 9) (drop 8 mt))
      then ''<phpunit'' @ take (length mt - 9) (drop 8 mt) @ '' colors="true">''
      else mt)\<close>
  using regex_replace_id [OF colorsRe_backslash assms]
  by (simp add: colors_callback_def Let_def)

lemma regex_replace_Some:
  "m prev s = Some n \<Longrightarrow> s \<noteq> [] \<Longrightarrow> regex_replace m f prev s = f (take n s) @ drop n s"
  by (cases s) simp_all

lemma regex_replace_None:
  "m prev (c # cs) = None \<Longrightarrow> regex_replace m f prev (c # cs) = c # regex_replace m f (Some c) cs"
  by simp

lemma ensure_colors_head:
  assumes "phpunitRe prev s = Some n" and "backslash \<notin> set s"
  shows \<open>regex_replace phpunitRe colors_callback prev s =
     (if \<not> str_includes ''colors='' (takeWhile (\<lambda>c. c \<noteq> CHR ''>'') (drop 8 s))
      then ''<phpunit'' @ takeWhile (\<lambda>c. c \<noteq> CHR ''>'') (drop 8 s) @ '' colors="true">'' @ drop n s
      else s)\<close>
proof -
  define a where "a = takeWhile (\<lambda>c. c \<noteq> CHR ''>'') (drop 8 s)"
  define q where "q = take 8 s"
  define r where "r = drop n s"
  note d = phpunitRe_SomeD [OF assms(1), folded a_def q_def r_def]
  have s: "s = q @ a @ CHR ''>'' # r" and n: "n = 9 + length a" and q: "length q = 8"
    using d by simp_all
  have tk: "take n s = q @ a @ ''>''"
    by (subst s) (simp add: n q)
  have "backslash \<notin> set (take n s)" using assms(2) by (meson in_set_takeD)
  from colors_callback_plain [OF this]
  have cb: \<open>colors_callback (take n s) =
     (if \<not> str_includes ''colors='' a then ''<phpunit'' @ a @ '' colors="true">'' else take n s)\<close>
    unfolding tk by (simp add: q)
  have "s \<noteq> []" using s by auto
  then have "regex_replace phpunitRe colors_callback prev s = colors_callback (take n s) @ drop n s"
    using assms(1) by (rule regex_replace_Some [rotated])
  moreover have "take n s @ r = s" by (simp add: r_def)
  ultimately show ?thesis
    unfolding cb a_def [symmetric] r_def [symmetric] by simp
qed


lemma prefix_ci_iff:
  "prefix_ci p s \<longleftrightarrow> length p \<le> length s \<and> map to_upper (take (length p) s) = map to_upper p"
  by (induction p s rule: prefix_ci.induct) auto

lemma prefix_ci_same_case:
  assumes "prefix_ci a b" and "length a = length b"
  shows "prefix_ci p a \<longleftrightarrow> prefix_ci p b"
proof -
  from assms have "map to_upper b = map to_upper a" by (simp add: prefix_ci_iff)
  then have "map to_upper (take k b) = map to_upper (take k a)" for k
    by (metis take_map)
  then show ?thesis using assms(2) by (simp add: prefix_ci_iff)
qed

lemma phpunitRe_Nil [simp]: "phpunitRe prev [] = None"
  by (simp add: phpunitRe_def)

lemma ensure_colors_prefix_ci:
  assumes "backslash \<notin> set s" and "length p \<le> 8"
  shows "prefix_ci p (regex_replace phpunitRe colors_callback prev s) \<longleftrightarrow> prefix_ci p s"
  using assms
proof (induction s arbitrary: p prev)
  case Nil
  then show ?case by simp
next
  case (Cons c cs)
  show ?case
  proof (cases "phpunitRe prev (c # cs)")
    case None
    then show ?thesis using Cons by (cases p) auto
  next
    case (Some n)
    define q where "q = take 8 (c # cs)"
    note d = phpunitRe_SomeD [OF Some, folded q_def]
    from Some have "phpunitRe prev (c # cs) \<noteq> None" by simp
    then have "prefix_ci ''<phpunit'' (c # cs)" unfolding phpunitRe_iff by blast
    then have "prefix_ci ''<phpunit'' (q @ drop 8 (c # cs))" by (simp add: q_def)
    then have pq: "prefix_ci ''<phpunit'' q" using d(3) by (simp add: prefix_ci_append)
    have "prefix_ci p (''<phpunit'' @ x) \<longleftrightarrow> prefix_ci p (q @ y)" for x y
      using prefix_ci_same_case [OF pq, of p] d(3) Cons.prems(2)
        prefix_ci_append [of p "''<phpunit''" x] prefix_ci_append [of p q y]
      by simp
    then have "prefix_ci p (''<phpunit'' @ x) \<longleftrightarrow> prefix_ci p (c # cs)" for x
      by (metis append_take_drop_id q_def)
    then show ?thesis
      unfolding ensure_colors_head [OF Some Cons.prems(1)] by (simp del: prefix_ci.simps)
  qed
qed


lemma in_set_drop_append: "k \<le> length u \<Longrightarrow> x \<in> set v \<Longrightarrow> x \<in> set (drop k (u @ v))"
  by simp

lemma ensure_colors_gt:
  assumes "backslash \<notin> set s" and "k \<le> 8"
  shows "CHR ''>'' \<in> set (drop k (regex_replace phpunitRe colors_callback prev s)) \<longleftrightarrow>
         CHR ''>'' \<in> set (drop k s)"
  using assms
proof (induction s arbitrary: k prev)
  case Nil
  then show ?case by simp
next
  case (Cons c cs)
  show ?case
  proof (cases "phpunitRe prev (c # cs)")
    case None
    have B: "backslash \<notin> set cs" using Cons.prems(1) by simp
    show ?thesis
    proof (cases k)
      case 0
      then show ?thesis using None Cons.IH [OF B, of 0 None] by simp
    next
      case (Suc k')
      then show ?thesis using None Cons.IH [OF B, of k' None] Cons.prems(2) by simp
    qed
  next
    case (Some n)
    define q where "q = take 8 (c # cs)"
    define a where "a = takeWhile (\<lambda>c. c \<noteq> CHR ''>'') (drop 8 (c # cs))"
    define r where "r = drop n (c # cs)"
    note d = phpunitRe_SomeD [OF Some, folded q_def a_def r_def]
    note h = ensure_colors_head [OF Some Cons.prems(1), folded a_def r_def]
    have "CHR ''>'' \<in> set (drop k (q @ a @ CHR ''>'' # r))"
      using d(3) Cons.prems(2) by (intro in_set_drop_append) simp_all
    then have 1: "CHR ''>'' \<in> set (drop k (c # cs))"
      using d(2) by simp
    have 2: \<open>CHR ''>'' \<in> set (drop k (''<phpunit'' @ a @ '' colors="true">'' @ r))\<close>
      using Cons.prems(2) by (intro in_set_drop_append) simp_all
    show ?thesis
      unfolding h using 1 2 by (simp del: drop_append)
  qed
qed

lemma ensure_colors_backslash:
  assumes "backslash \<notin> set s"
  shows "backslash \<notin> set (regex_replace phpunitRe colors_callback prev s)"
  using assms
proof (induction s arbitrary: prev)
  case Nil
  then show ?case by simp
next
  case (Cons c cs)
  show ?case
  proof (cases "phpunitRe prev (c # cs)")
    case None
    then show ?thesis using Cons by auto
  next
    case (Some n)
    have "backslash \<notin> set (takeWhile (\<lambda>c. c \<noteq> CHR ''>'') (drop 8 (c # cs)))"
      using Cons.prems by (meson in_set_dropD set_takeWhileD)
    moreover have "backslash \<notin> set (drop n (c # cs))"
      using Cons.prems by (meson in_set_dropD)
    ultimately show ?thesis
      unfolding ensure_colors_head [OF Some Cons.prems] using Cons.prems by simp
  qed
qed

lemma ensure_colors_no_new_match:
  assumes "backslash \<notin> set cs"
  shows "phpunitRe prev (c # regex_replace phpunitRe colors_callback prev' cs) = None \<longleftrightarrow>
         phpunitRe prev (c # cs) = None"
  unfolding phpunitRe_None_iff
  using ensure_colors_prefix_ci [OF assms, of "''phpunit''" prev']
    ensure_colors_gt [OF assms, of 7 prev']
  by simp


lemma takeWhile_append_gt:
  "CHR ''>'' \<notin> set u \<Longrightarrow>
   takeWhile (\<lambda>c. c \<noteq> CHR ''>'') (u @ CHR ''>'' # v) = u"
  by (induction u) auto

lemma ensure_colors_stable_iff:
  assumes "backslash \<notin> set s"
  shows "regex_replace phpunitRe colors_callback prev s = s \<longleftrightarrow>
         (\<forall>n. phpunitRe prev s = Some n \<longrightarrow>
            str_includes ''colors='' (takeWhile (\<lambda>c. c \<noteq> CHR ''>'') (drop 8 s))) \<and>
         (\<forall>c cs. s = c # cs \<and> phpunitRe prev s = None \<longrightarrow>
            regex_replace phpunitRe colors_callback None cs = cs)"
proof (cases "phpunitRe prev s")
  case None
  then show ?thesis by (cases s) auto
next
  case (Some n)
  define a where "a = takeWhile (\<lambda>c. c \<noteq> CHR ''>'') (drop 8 s)"
  define r where "r = drop n s"
  define q where "q = take 8 s"
  note h = ensure_colors_head [OF Some assms, folded a_def r_def]
  note d = phpunitRe_SomeD [OF Some, folded a_def r_def q_def]
  have "length s = length (q @ a @ CHR ''>'' # r)" using d(2) by simp
  then have "length (''<phpunit'' @ a @ '' colors=\"true\">'' @ r) \<noteq> length s"
    by (simp add: d(3))
  then have "''<phpunit'' @ a @ '' colors=\"true\">'' @ r \<noteq> s" by metis
  then show ?thesis
    unfolding h using Some by (auto simp: a_def)
qed

lemma ensure_colors_twice:
  assumes "backslash \<notin> set s"
  shows "regex_replace phpunitRe colors_callback prev'
           (regex_replace phpunitRe colors_callback prev s) =
         regex_replace phpunitRe colors_callback prev s"
  using assms
proof (induction s arbitrary: prev prev')
  case Nil
  then show ?case by simp
next
  case (Cons c cs)
  show ?case
  proof (cases "phpunitRe prev (c # cs)")
    case None
    have B: "backslash \<notin> set cs" using Cons.prems by simp
    have "phpunitRe prev' (c # regex_replace phpunitRe colors_callback None cs) = None"
      using ensure_colors_no_new_match [OF B, of prev' c None] None
      by (simp add: phpunitRe_def)
    then show ?thesis using None Cons.IH [OF B, of None None] by simp
  next
    case (Some n)
    define a where "a = takeWhile (\<lambda>c. c \<noteq> CHR ''>'') (drop 8 (c # cs))"
    define r where "r = drop n (c # cs)"
    note h = ensure_colors_head [OF Some Cons.prems, folded a_def r_def]
    show ?thesis
    proof (cases "str_includes ''colors='' a")
      case True
      then have "regex_replace phpunitRe colors_callback prev (c # cs) = c # cs"
        unfolding h by simp
      moreover have "regex_replace phpunitRe colors_callback prev' (c # cs) = c # cs"
        using ensure_colors_head [of prev' "c # cs" n, folded a_def r_def] Some True Cons.prems
        by (simp add: phpunitRe_def)
      ultimately show ?thesis by simp
    next
      case False
      define t where \<open>t = ''<phpunit'' @ a @ '' colors="true">'' @ r\<close>
      have t: "regex_replace phpunitRe colors_callback prev (c # cs) = t"
        unfolding h t_def using False by simp
      have a: "CHR ''>'' \<notin> set a" unfolding a_def by (auto dest: set_takeWhileD)
      have Bt: "backslash \<notin> set t"
        using ensure_colors_backslash [OF Cons.prems, of prev] unfolding t .
      have d8: \<open>drop 8 t = (a @ '' colors="true"'') @ CHR ''>'' # r\<close>
        by (simp add: t_def)
      have tw: \<open>takeWhile (\<lambda>c. c \<noteq> CHR ''>'') (drop 8 t) = a @ '' colors="true"''\<close>
        unfolding d8 using a by (intro takeWhile_append_gt) simp
      have "phpunitRe prev' t \<noteq> None"
        unfolding phpunitRe_iff d8 by (simp add: t_def)
      then obtain n' where n': "phpunitRe prev' t = Some n'" by blast
      have \<open>str_includes ''colors='' (a @ '' colors="true"'')\<close>
        unfolding str_includes_iff
        by (rule exI [of _ "a @ '' ''"], rule exI [of _ \<open>''"true"''\<close>]) simp
      then have "regex_replace phpunitRe colors_callback prev' t = t"
        unfolding ensure_colors_head [OF n' Bt] tw by simp
      then show ?thesis unfolding t .
    qed
  qed
qed


text \<open>The second replacement, where no \<open>APP_LOCALE\<close> is present.\<close>

lemma phpRe_Nil [simp]: "phpRe prev [] = None"
  by (simp add: phpRe_def)

lemma phpRe_SomeD:
  assumes "phpRe prev s = Some n"
  shows "n = 5" and "\<exists>c2 c3 c4 r. s = CHR ''<'' # c2 # c3 # c4 # CHR ''>'' # r"
  using assms by (auto simp: phpRe_def prefix_ci_Cons split: if_splits)

lemma insert_env_prefix_ci_tail:
  assumes "CHR ''<'' \<notin> set p"
  shows "prefix_ci p (regex_replace phpRe (\<lambda>m. CHR ''<'' # ins) prev s) \<longleftrightarrow> prefix_ci p s"
  using assms
proof (induction p arbitrary: s prev)
  case Nil
  then show ?case by simp
next
  case (Cons a p)
  note IH = Cons.IH and prems = Cons.prems
  show ?case
  proof (cases s)
    case Nil
    then show ?thesis by simp
  next
    case s: (Cons d t)
    show ?thesis
    proof (cases "phpRe prev s")
      case None
      then show ?thesis using s IH [of None t] prems by simp
    next
      case (Some n)
      from phpRe_SomeD [OF this] prems show ?thesis
        using Some by auto
    qed
  qed
qed


lemma php_with_env_Cons: "\<exists>ins. php_with_env = CHR ''<'' # ins"
  by (simp add: php_with_env_def)

lemma insert_env_prefix_ci:
  "prefix_ci ''<phpunit'' (regex_replace phpRe (\<lambda>m. php_with_env) prev s) \<longleftrightarrow>
   prefix_ci ''<phpunit'' s"
proof (cases s)
  case Nil
  then show ?thesis by simp
next
  case s: (Cons d t)
  obtain ins where ins: "php_with_env = CHR ''<'' # ins" using php_with_env_Cons by blast
  show ?thesis
  proof (cases "phpRe prev s")
    case None
    then show ?thesis
      using s insert_env_prefix_ci_tail [of "''phpunit''" ins None t] by (simp add: ins)
  next
    case (Some n)
    from phpRe_SomeD [OF this] obtain c2 c3 c4 r where
      "s = CHR ''<'' # c2 # c3 # c4 # CHR ''>'' # r" and "n = 5" by blast
    then show ?thesis using Some by (simp add: php_with_env_def)
  qed
qed

lemma insert_env_gt:
  "CHR ''>'' \<in> set (regex_replace phpRe (\<lambda>m. php_with_env) prev s) \<longleftrightarrow> CHR ''>'' \<in> set s"
proof (induction s arbitrary: prev)
  case Nil
  then show ?case by simp
next
  case (Cons d t)
  show ?case
  proof (cases "phpRe prev (d # t)")
    case None
    then show ?thesis using Cons [of None] by simp
  next
    case (Some n)
    from phpRe_SomeD [OF this] obtain c2 c3 c4 r where
      "d # t = CHR ''<'' # c2 # c3 # c4 # CHR ''>'' # r" and "n = 5" by blast
    then show ?thesis using Some by (simp add: php_with_env_def)
  qed
qed

lemma insert_env_backslash:
  "backslash \<notin> set s \<Longrightarrow> backslash \<notin> set (regex_replace phpRe (\<lambda>m. php_with_env) prev s)"
proof (induction s arbitrary: prev)
  case Nil
  then show ?case by simp
next
  case (Cons d t)
  show ?case
  proof (cases "phpRe prev (d # t)")
    case None
    then show ?thesis using Cons by simp
  next
    case (Some n)
    have "backslash \<notin> set (drop n (d # t))" using Cons.prems by (meson in_set_dropD)
    then show ?thesis using Some by (simp add: php_with_env_def)
  qed
qed

lemma insert_env_changes:
  \<open>str_includes ''name="APP_LOCALE"'' (regex_replace phpRe (\<lambda>m. php_with_env) prev s) \<or>
   regex_replace phpRe (\<lambda>m. php_with_env) prev s = s\<close>
proof (induction s arbitrary: prev)
  case Nil
  then show ?case by simp
next
  case (Cons d t)
  show ?case
  proof (cases "phpRe prev (d # t)")
    case None
    then show ?thesis using Cons [of None] by auto
  next
    case (Some n)
    have \<open>php_with_env @ drop n (d # t) =
          ''<php><env '' @ ''name="APP_LOCALE"'' @ ('' value="en"/>'' @ drop n (d # t))\<close>
      by (simp add: php_with_env_def)
    then have \<open>str_includes ''name="APP_LOCALE"'' (php_with_env @ drop n (d # t))\<close>
      unfolding str_includes_iff by blast
    then show ?thesis using Some by simp
  qed
qed


lemma insert_env_skips_tag_name:
  assumes "prefix_ci ''<phpunit'' s"
  shows "regex_replace phpRe f prev s = take 8 s @ regex_replace phpRe f None (drop 8 s)"
proof -
  from assms obtain c1 c2 c3 c4 c5 c6 c7 c8 w where
    s: "s = c1 # c2 # c3 # c4 # c5 # c6 # c7 # c8 # w"
    and c: "to_upper c1 = CHR ''<''" "to_upper c2 = CHR ''P''" "to_upper c3 = CHR ''H''"
      "to_upper c4 = CHR ''P''" "to_upper c5 = CHR ''U''" "to_upper c6 = CHR ''N''"
      "to_upper c7 = CHR ''I''" "to_upper c8 = CHR ''T''"
    by (auto simp: prefix_ci_Cons)
  have n: "phpRe p (x # y) = None" if "to_upper x \<noteq> CHR ''<''" for p x y
    using that by (simp add: phpRe_def)
  have n1: "phpRe p (x # c2 # c3 # c4 # c5 # y) = None" for p x y
    using c(5) by (auto simp: phpRe_def)
  show ?thesis
    unfolding s using c by (simp add: n n1)
qed

lemma str_includes_append_disjoint:
  assumes "n \<noteq> []" and "set n \<inter> set x = {}"
  shows "str_includes n (a @ x) \<longleftrightarrow> str_includes n a"
proof
  assume "str_includes n a"
  then obtain l r where "a = l @ n @ r" unfolding str_includes_iff by blast
  then have "a @ x = l @ n @ (r @ x)" by simp
  then show "str_includes n (a @ x)" unfolding str_includes_iff by blast
next
  assume "str_includes n (a @ x)"
  then obtain l r where lr: "a @ x = (l @ n) @ r" unfolding str_includes_iff by auto
  then consider us where "a = (l @ n) @ us" "us @ x = r" | us where "a @ us = l @ n" "x = us @ r"
    unfolding append_eq_append_conv2 by blast
  then show "str_includes n a"
  proof cases
    case 1
    then show ?thesis unfolding str_includes_iff by auto
  next
    case 2
    show ?thesis
    proof (cases "us = []")
      case True
      with 2 have "a = l @ n @ []" by simp
      then show ?thesis unfolding str_includes_iff by blast
    next
      case False
      then have "last (a @ us) = last us" by simp
      moreover have "last (l @ n) = last n" using assms(1) by simp
      ultimately have "last n = last us" using 2(1) by simp
      then have "last n \<in> set x" using 2(2) False by (metis Un_iff last_in_set set_append)
      moreover have "last n \<in> set n" using assms(1) by simp
      ultimately show ?thesis using assms(2) by blast
    qed
  qed
qed

lemma insert_env_colors:
  "str_includes ''colors=''
     (acc @ takeWhile (\<lambda>c. c \<noteq> CHR ''>'') (regex_replace phpRe (\<lambda>m. php_with_env) prev s)) \<longleftrightarrow>
   str_includes ''colors='' (acc @ takeWhile (\<lambda>c. c \<noteq> CHR ''>'') s)"
proof (induction s arbitrary: prev acc)
  case Nil
  then show ?case by simp
next
  case (Cons d t)
  show ?case
  proof (cases "phpRe prev (d # t)")
    case None
    then show ?thesis using Cons [of "acc @ [d]" None] by simp
  next
    case (Some n)
    then have p: "prefix_ci ''<php>'' (d # t)" and n: "n = 5"
      by (auto simp: phpRe_def split: if_splits)
    then obtain c2 c3 c4 r where
      s: "d # t = CHR ''<'' # c2 # c3 # c4 # CHR ''>'' # r"
      and c: "to_upper c2 = CHR ''P''" "to_upper c3 = CHR ''H''" "to_upper c4 = CHR ''P''"
      by (auto simp: prefix_ci_Cons)
    have ne: "c \<noteq> CHR ''>''" if "to_upper c = CHR ''P'' \<or> to_upper c = CHR ''H''" for c
      using that by auto
    have nc: "c \<notin> set ''colors=''" if "to_upper c = CHR ''P'' \<or> to_upper c = CHR ''H''" for c
      using that by (auto simp: to_upper_def)
    have 1: "takeWhile (\<lambda>c. c \<noteq> CHR ''>'') (d # t) = [CHR ''<'', c2, c3, c4]"
      unfolding s using ne c by simp
    have 2: "takeWhile (\<lambda>c. c \<noteq> CHR ''>'') (php_with_env @ drop n (d # t)) = ''<php''"
      by (simp add: php_with_env_def)
    have "str_includes ''colors='' (acc @ [CHR ''<'', c2, c3, c4]) \<longleftrightarrow> str_includes ''colors='' acc"
      using nc c by (intro str_includes_append_disjoint) auto
    moreover have "str_includes ''colors='' (acc @ ''<php'') \<longleftrightarrow> str_includes ''colors='' acc"
      by (intro str_includes_append_disjoint) auto
    ultimately show ?thesis
      using Some unfolding regex_replace.simps 1 by (simp add: 2 del: takeWhile_append)
  qed
qed


lemma insert_env_drop_tag_name:
  assumes "prefix_ci ''<phpunit'' s"
  shows "drop 8 (regex_replace phpRe f prev s) = regex_replace phpRe f None (drop 8 s)"
  using prefix_ci_length [OF assms]
  by (subst insert_env_skips_tag_name [OF assms]) simp

lemma insert_env_match:
  "phpunitRe p (regex_replace phpRe (\<lambda>m. php_with_env) prev s) = None \<longleftrightarrow> phpunitRe p' s = None"
  unfolding phpunitRe_None_iff insert_env_prefix_ci
  using insert_env_drop_tag_name [of s "\<lambda>m. php_with_env" prev]
    insert_env_gt [of None "drop 8 s"]
  by auto

lemma insert_env_attrs:
  assumes "prefix_ci ''<phpunit'' s"
  shows "str_includes ''colors=''
           (takeWhile (\<lambda>c. c \<noteq> CHR ''>'')
              (drop 8 (regex_replace phpRe (\<lambda>m. php_with_env) prev s))) \<longleftrightarrow>
         str_includes ''colors='' (takeWhile (\<lambda>c. c \<noteq> CHR ''>'') (drop 8 s))"
  unfolding insert_env_drop_tag_name [OF assms]
  using insert_env_colors [of "[]" None "drop 8 s"] by simp

lemma ensure_colors_skips_env:
  "regex_replace phpunitRe f prev (php_with_env @ r) = php_with_env @ regex_replace phpunitRe f None r"
  by (simp add: php_with_env_def phpunitRe_def)


lemma insert_env_stable:
  assumes "backslash \<notin> set s"
    and "regex_replace phpunitRe colors_callback None s = s"
  shows "regex_replace phpunitRe colors_callback None
           (regex_replace phpRe (\<lambda>m. php_with_env) None s) =
         regex_replace phpRe (\<lambda>m. php_with_env) None s"
  using assms
proof (induction s)
  case Nil
  then show ?case by simp
next
  case (Cons c cs)
  let ?z = "regex_replace phpRe (\<lambda>m. php_with_env) None (c # cs)"
  have Bz: "backslash \<notin> set ?z" using Cons.prems(1) by (rule insert_env_backslash)
  show ?case
  proof (cases "phpunitRe None (c # cs)")
    case (Some n)
    then have "phpunitRe None (c # cs) \<noteq> None" by simp
    then have p: "prefix_ci ''<phpunit'' (c # cs)" unfolding phpunitRe_iff by blast
    have "str_includes ''colors='' (takeWhile (\<lambda>c. c \<noteq> CHR ''>'') (drop 8 (c # cs)))"
      using Cons.prems(2) Some unfolding ensure_colors_stable_iff [OF Cons.prems(1)] by blast
    then have a: "str_includes ''colors='' (takeWhile (\<lambda>c. c \<noteq> CHR ''>'') (drop 8 ?z))"
      unfolding insert_env_attrs [OF p] .
    have "phpunitRe None ?z \<noteq> None"
      using insert_env_match [of None None "c # cs" None] Some by simp
    then obtain n' where n': "phpunitRe None ?z = Some n'" by blast
    show ?thesis
      unfolding ensure_colors_head [OF n' Bz] using a by simp
  next
    case None
    then have st: "regex_replace phpunitRe colors_callback None cs = cs"
      using Cons.prems(2) by simp
    have B: "backslash \<notin> set cs" using Cons.prems(1) by simp
    show ?thesis
    proof (cases "phpRe None (c # cs)")
      case n: None
      then have z: "?z = c # regex_replace phpRe (\<lambda>m. php_with_env) None cs" by simp
      have "phpunitRe None ?z = None"
        using insert_env_match [of None None "c # cs" None] None by simp
      then show ?thesis
        unfolding z using Cons.IH [OF B st] by simp
    next
      case (Some m)
      then have "prefix_ci ''<php>'' (c # cs)" and m: "m = 5"
        by (auto simp: phpRe_def split: if_splits)
      then obtain c2 c3 c4 r where
        s: "cs = c2 # c3 # c4 # CHR ''>'' # r"
        and c: "to_upper c2 = CHR ''P''" "to_upper c3 = CHR ''H''" "to_upper c4 = CHR ''P''"
        by (auto simp: prefix_ci_Cons)
      have nm: "phpunitRe q (x # y) = None" if "to_upper x \<noteq> CHR ''<''" for q x y
        using that by (simp add: phpunitRe_def)
      have "regex_replace phpunitRe colors_callback None cs =
            c2 # c3 # c4 # CHR ''>'' # regex_replace phpunitRe colors_callback None r"
        unfolding s using c by (simp add: nm)
      with st have r: "regex_replace phpunitRe colors_callback None r = r"
        unfolding s by simp
      have z: "?z = php_with_env @ r" using Some m s by simp
      show ?thesis unfolding z ensure_colors_skips_env r ..
    qed
  qed
qed

lemma ensure_app_locale_plain:
  assumes "backslash \<notin> set s"
  shows \<open>ensure_app_locale s =
     (if str_includes ''name="APP_LOCALE"'' s then s
      else regex_replace phpRe (\<lambda>m. php_with_env) None s)\<close>
  using regex_replace_id [OF envRe_backslash assms]
  by (simp add: ensure_app_locale_def)

lemma ensurePhpunitAppLocaleEn_content_twice:
  assumes "backslash \<notin> set xmlData"
  shows "ensurePhpunitAppLocaleEn_content (ensurePhpunitAppLocaleEn_content xmlData) =
         ensurePhpunitAppLocaleEn_content xmlData"
proof -
  define y where "y = ensure_colors xmlData"
  have By: "backslash \<notin> set y"
    unfolding y_def ensure_colors_def using assms by (rule ensure_colors_backslash)
  have sy: "ensure_colors y = y"
    unfolding y_def ensure_colors_def using assms by (rule ensure_colors_twice)
  show ?thesis
  proof (cases \<open>str_includes ''name="APP_LOCALE"'' y\<close>)
    case True
    then have "ensure_app_locale y = y" using ensure_app_locale_plain [OF By] by simp
    then show ?thesis
      unfolding ensurePhpunitAppLocaleEn_content_def y_def [symmetric] using sy by simp
  next
    case False
    define z where "z = regex_replace phpRe (\<lambda>m. php_with_env) None y"
    have z: "ensure_app_locale y = z"
      using ensure_app_locale_plain [OF By] False by (simp add: z_def)
    have Bz: "backslash \<notin> set z" unfolding z_def using By by (rule insert_env_backslash)
    have sz: "ensure_colors z = z"
      unfolding z_def ensure_colors_def
      using By sy [unfolded ensure_colors_def] by (rule insert_env_stable)
    have "ensure_app_locale z = z"
    proof (cases \<open>str_includes ''name="APP_LOCALE"'' z\<close>)
      case True
      then show ?thesis using ensure_app_locale_plain [OF Bz] by simp
    next
      case False
      then have "z = y" using insert_env_changes [of None y] by (simp add: z_def)
      then show ?thesis using z by simp
    qed
    then show ?thesis
      unfolding ensurePhpunitAppLocaleEn_content_def y_def [symmetric] z sz .
  qed
qed

lemma path_join2: "path_join [a, b] = a @ CHR ''/'' # b"
  by (simp add: path_join_def)

lemma ensurePhpunitAppLocaleEn_at:
  assumes "files fs pth = Some xmlData"
    and "pth = path_join [projectPath, ''phpunit.xml''] \<or>
         \<not> access fs (path_join [projectPath, ''phpunit.xml'']) \<and>
         pth = path_join [projectPath, ''phpunit.xml.dist'']"
  shows "ensurePhpunitAppLocaleEn fs projectPath =
         writeFile fs pth (ensurePhpunitAppLocaleEn_content xmlData)"
  using assms by (auto simp: ensurePhpunitAppLocaleEn_def readFile_def access_def Let_def)

lemma ensurePhpunitAppLocaleEn_none:
  assumes "\<not> access fs (path_join [projectPath, ''phpunit.xml''])"
    and "\<not> access fs (path_join [projectPath, ''phpunit.xml.dist''])"
  shows "ensurePhpunitAppLocaleEn fs projectPath = (Inr (), fs)"
  using assms by (simp add: ensurePhpunitAppLocaleEn_def)

lemma ensurePhpunitAppLocaleEn_directory:
  assumes "files fs pth = None"
    and "access fs pth"
    and "pth = path_join [projectPath, ''phpunit.xml''] \<or>
         \<not> access fs (path_join [projectPath, ''phpunit.xml'']) \<and>
         pth = path_join [projectPath, ''phpunit.xml.dist'']"
  shows "\<exists>e. ensurePhpunitAppLocaleEn fs projectPath = (Inl e, fs)"
  using assms by (auto simp: ensurePhpunitAppLocaleEn_def readFile_def Let_def)

text \<open>
  A second run after a run that succeeded: when the candidate files have no backslash, it
  succeeds and leaves every file as the first run left it. When neither \<open>phpunit.xml\<close> nor
  \<open>phpunit.xml.dist\<close> exists the function succeeds and changes nothing.
\<close>

lemma ensurePhpunitAppLocaleEn_rerun:
  "(ensurePhpunitAppLocaleEn fs projectPath = (Inr u, fs') \<and>
    (\<forall>xmlData. files fs (path_join [projectPath, ''phpunit.xml'']) = Some xmlData \<or>
                files fs (path_join [projectPath, ''phpunit.xml.dist'']) = Some xmlData \<longrightarrow>
                backslash \<notin> set xmlData) \<longrightarrow>
      ensurePhpunitAppLocaleEn fs' projectPath = (Inr u, fs')) \<and>
   (\<not> access fs (path_join [projectPath, ''phpunit.xml'']) \<and>
    \<not> access fs (path_join [projectPath, ''phpunit.xml.dist'']) \<longrightarrow>
      ensurePhpunitAppLocaleEn fs projectPath = (Inr (), fs))"
proof (intro conjI impI)
  assume "\<not> access fs (path_join [projectPath, ''phpunit.xml'']) \<and>
          \<not> access fs (path_join [projectPath, ''phpunit.xml.dist''])"
  then show "ensurePhpunitAppLocaleEn fs projectPath = (Inr (), fs)"
    by (simp add: ensurePhpunitAppLocaleEn_none)
next
  let ?p1 = "path_join [projectPath, ''phpunit.xml'']"
  let ?p2 = "path_join [projectPath, ''phpunit.xml.dist'']"
  assume a: "ensurePhpunitAppLocaleEn fs projectPath = (Inr u, fs') \<and>
    (\<forall>xmlData. files fs ?p1 = Some xmlData \<or> files fs ?p2 = Some xmlData \<longrightarrow>
                backslash \<notin> set xmlData)"
  then have run1: "ensurePhpunitAppLocaleEn fs projectPath = (Inr u, fs')"
    and plain: "\<And>xmlData. files fs ?p1 = Some xmlData \<or> files fs ?p2 = Some xmlData \<Longrightarrow>
                  backslash \<notin> set xmlData"
    by blast+
  have ne: "?p1 \<noteq> ?p2" by (simp add: path_join2)
  show "ensurePhpunitAppLocaleEn fs' projectPath = (Inr u, fs')"
  proof (cases "\<not> access fs ?p1 \<and> \<not> access fs ?p2")
    case True
    then have "fs' = fs" using run1 by (simp add: ensurePhpunitAppLocaleEn_none)
    then show ?thesis using run1 by simp
  next
    case False
    then obtain pth where acc: "access fs pth"
      and c: "pth = ?p1 \<or> \<not> access fs ?p1 \<and> pth = ?p2"
      by blast
    have "files fs pth \<noteq> None"
    proof
      assume "files fs pth = None"
      from ensurePhpunitAppLocaleEn_directory [OF this acc c] run1 show False by auto
    qed
    then obtain xmlData where f: "files fs pth = Some xmlData" by blast
    have pl: "backslash \<notin> set xmlData" using plain [of xmlData] f c by blast
    define new where "new = ensurePhpunitAppLocaleEn_content xmlData"
    from run1 have w: "writeFile fs pth new = (Inr u, fs')"
      unfolding ensurePhpunitAppLocaleEn_at [OF f c] new_def .
    then have fs': "fs' = fs\<lparr>files := (files fs)(pth \<mapsto> new)\<rparr>"
      and we: "write_error fs pth = None"
      by (auto simp: writeFile_def split: option.splits)
    have f': "files fs' pth = Some new" by (simp add: fs')
    have c': "pth = ?p1 \<or> \<not> access fs' ?p1 \<and> pth = ?p2"
      using c ne by (auto simp: fs' access_def)
    have "ensurePhpunitAppLocaleEn_content new = new"
      unfolding new_def using pl by (rule ensurePhpunitAppLocaleEn_content_twice)
    then have "ensurePhpunitAppLocaleEn fs' projectPath = writeFile fs' pth new"
      using ensurePhpunitAppLocaleEn_at [OF f' c'] by simp
    also have "\<dots> = (Inr u, fs')"
      using we by (simp add: writeFile_def fs')
    finally show ?thesis .
  qed
qed

lemma ensurePhpunitAppLocaleEn_rerun_example:
  "fst (ensurePhpunitAppLocaleEn example_phpunit_fs ''proj'') = Inr () \<and>
   ensurePhpunitAppLocaleEn (snd (ensurePhpunitAppLocaleEn example_phpunit_fs ''proj'')) ''proj'' =
     (Inr (), snd (ensurePhpunitAppLocaleEn example_phpunit_fs ''proj'')) \<and>
   ensurePhpunitAppLocaleEn empty_fs ''proj'' = (Inr (), empty_fs)"
proof -
  obtain res fs' where p: "ensurePhpunitAppLocaleEn example_phpunit_fs ''proj'' = (res, fs')"
    by (cases "ensurePhpunitAppLocaleEn example_phpunit_fs ''proj''")
  have "fst (ensurePhpunitAppLocaleEn example_phpunit_fs ''proj'') = Inr ()" by code_simp
  with p have r: "res = Inr ()" by simp
  have "backslash \<notin> set example_phpunit" by (simp add: example_phpunit_def)
  then have plain: "\<forall>xmlData.
      files example_phpunit_fs (path_join [''proj'', ''phpunit.xml'']) = Some xmlData \<or>
      files example_phpunit_fs (path_join [''proj'', ''phpunit.xml.dist'']) = Some xmlData \<longrightarrow>
      backslash \<notin> set xmlData"
    by (simp add: example_phpunit_fs_def path_join2)
  have "\<not> access empty_fs (path_join [''proj'', ''phpunit.xml'']) \<and>
        \<not> access empty_fs (path_join [''proj'', ''phpunit.xml.dist''])"
    by (simp add: empty_fs_def access_def)
  with ensurePhpunitAppLocaleEn_rerun [of empty_fs "''proj''"]
  have e: "ensurePhpunitAppLocaleEn empty_fs ''proj'' = (Inr (), empty_fs)" by blast
  from ensurePhpunitAppLocaleEn_rerun [of example_phpunit_fs "''proj''" "()" fs'] p r plain
  have "ensurePhpunitAppLocaleEn fs' ''proj'' = (Inr (), fs')" by blast
  with p r e show ?thesis by simp
qed

text \<open>
  On a content with backslashes a second run can differ from the first: the first run
  rewrites the first match of the expression for the \<open>APP_LOCALE\<close> element, the second run
  the second match.
\<close>

lemma ensurePhpunitAppLocaleEn_twice_differs:
  "ensurePhpunitAppLocaleEn_content (ensurePhpunitAppLocaleEn_content example_two_env) \<noteq>
   ensurePhpunitAppLocaleEn_content example_two_env"
  by code_simp

text \<open>
  C8. A \<open>phpunit.xml\<close> with the element \<open><env name="APP_LOCALE" value="es"/>\<close>: the run
  succeeds and writes the content it read, so the value stays \<open>es\<close> and is not updated to
  \<open>en\<close>. Between \<open><env\<close> and \<open>name\<close> the expression of the source,
  \<open>/<env\\s+name="APP_LOCALE"\\s+value="[^"]*"/i\<close>, asks for a backslash and letters s, not
  for white space, so it does not match the element.
\<close>

theorem ensurePhpunitAppLocaleEn_keeps_locale:
  \<open>fst (ensurePhpunitAppLocaleEn example_phpunit_es_fs ''proj'') = Inr () \<and>
   files (snd (ensurePhpunitAppLocaleEn example_phpunit_es_fs ''proj'')) ''proj/phpunit.xml'' =
     Some example_phpunit_es \<and>
   ensurePhpunitAppLocaleEn_content example_phpunit_es = example_phpunit_es \<and>
   str_includes ''<env name="APP_LOCALE" value="es"/>'' example_phpunit_es \<and>
   \<not> str_includes ''value="en"'' example_phpunit_es\<close>
  by code_simp

text \<open>
  The legacy command matches the element, and writes the replacement of the source, which
  has no \<open><\<close>; and its expression for \<open>colors\<close> makes a second run differ from the first
  on \<open>colors ="false"\<close>.
\<close>

lemma legacy_updates_locale:
  \<open>ensurePhpunitAppLocaleEn_legacy_content
     ''<phpunit colors="true"><php><env name="APP_LOCALE" value="es"/></php></phpunit>'' =
   ''<phpunit colors="true"><php>env name="APP_LOCALE" value="en"/></php></phpunit>''\<close>
  by code_simp

lemma legacy_colors_twice:
  \<open>ensurePhpunitAppLocaleEn_legacy_content ''<phpunit colors ="false">'' =
     ''<phpunit colors ="false" colors="true">'' \<and>
   ensurePhpunitAppLocaleEn_legacy_content ''<phpunit colors ="false" colors="true">'' =
     ''<phpunit colors="true" colors="true">''\<close>
  by code_simp

subsection \<open>The orchestrator\<close>



lemma truthy_or_default [simp]: "d \<noteq> [] \<Longrightarrow> truthy (Some (or_default x d))"
  by (cases x) auto

lemma or_default_nonempty [simp]: "d \<noteq> [] \<Longrightarrow> or_default x d \<noteq> []"
  by (cases x) auto

lemma runCreate_missing:
  fixes c :: "'a ctx_scheme"
  assumes "json c \<or> nonInteractive c \<or> \<not> isTTY w"
    and "validateNonInteractive (fill_defaults (nonInteractive c) (params c)) = missing"
    and "missing \<noteq> []"
  shows "\<exists>rep. runCreate w c = Inr rep \<and> exit_code rep = 1 \<and> final rep = None \<and>
           (if json c
            then errors_printed rep = [] \<and>
                 map_option doc_error (written rep) =
                   Some (Some (missing_message missing, Some ''EINVAL'', None))
            else written rep = None \<and>
                 errors_printed rep =
                   [if colorsEnabled w \<lparr>json = json c, noColor = noColor c, color = color c\<rparr>
                    then chalk w ''red'' (missing_message missing)
                    else missing_message missing])"
  using assms by (auto simp: runCreate_def Let_def)


lemma db_default_mysql [simp]:
  "db i = Some ''mysql'' \<Longrightarrow> db (fill_defaults b i) = Some ''mysql''"
  "db i = Some ''postgresql'' \<Longrightarrow> db (fill_defaults b i) = Some ''postgresql''"
  by (simp_all add: fill_defaults_def Let_def)

lemma fill_defaults_keeps [simp]:
  "projectName (fill_defaults b i) = projectName i"
  "dbHost (fill_defaults b i) = dbHost i"
  "dbPort (fill_defaults b i) = dbPort i"
  "dbName (fill_defaults b i) = dbName i"
  "dbUser (fill_defaults b i) = dbUser i"
  "dbPassword (fill_defaults b i) = dbPassword i"
  "herdDir (fill_defaults b i) = herdDir i"
  "filamentName (fill_defaults True i) = filamentName i"
  "filamentEmail (fill_defaults True i) = filamentEmail i"
  "filamentPassword (fill_defaults True i) = filamentPassword i"
  by (simp_all add: fill_defaults_def Let_def)

lemma fill_defaults_sets [simp]:
  "starterKit (fill_defaults b i) = Some (or_default (starterKit i) ''react'')"
  "db (fill_defaults b i) = Some (or_default (db i) ''sqlite'')"
  "filamentName (fill_defaults False i) = Some (or_default (filamentName i) ''Admin'')"
  "filamentEmail (fill_defaults False i) = Some (or_default (filamentEmail i) ''admin@admin.com'')"
  "filamentPassword (fill_defaults False i) = Some (or_default (filamentPassword i) ''password'')"
  by (simp_all add: fill_defaults_def Let_def)




text \<open>
  C9. With \<open>--json\<close> and without \<open>--non-interactive\<close>, \<open>runCreate\<close> fills the defaults before
  it validates: the starter kit \<open>react\<close>, the database \<open>sqlite\<close>, the Filament credentials
  \<open>Admin\<close>, \<open>admin@admin.com\<close>, \<open>password\<close>. For \<open>sqlite\<close> the validation then reports
  \<open>--project-name\<close> or nothing, and the run ends with that one flag in the message when the
  project name is missing. Whatever the flags, \<open>--starter-kit\<close> and \<open>--db\<close> are never
  reported after the defaults.
\<close>

theorem defaults_before_validation:
  fixes c :: "'a ctx_scheme"
  assumes "json c" and "\<not> nonInteractive c"
  shows
    "let i = params c;
         i1 = fill_defaults (nonInteractive c) i;
         missing = validateNonInteractive i1
     in
       starterKit i1 = Some (or_default (starterKit i) ''react'') \<and>
       db i1 = Some (or_default (db i) ''sqlite'') \<and>
       filamentName i1 = Some (or_default (filamentName i) ''Admin'') \<and>
       filamentEmail i1 = Some (or_default (filamentEmail i) ''admin@admin.com'') \<and>
       filamentPassword i1 = Some (or_default (filamentPassword i) ''password'') \<and>
       (db i1 = Some ''sqlite'' \<longrightarrow>
          missing = (if truthy (projectName i) then [] else [''--project-name''])) \<and>
       (db i1 = Some ''sqlite'' \<and> \<not> truthy (projectName i) \<longrightarrow>
          (\<exists>rep. runCreate w c = Inr rep \<and> exit_code rep = 1 \<and> final rep = None \<and>
             map_option doc_error (written rep) =
               Some (Some (missing_message [''--project-name''], Some ''EINVAL'', None)))) \<and>
       (\<forall>b j. ''--starter-kit'' \<notin> set (validateNonInteractive (fill_defaults b j)) \<and>
              ''--db'' \<notin> set (validateNonInteractive (fill_defaults b j)))"
proof -
  define i where "i = params c"
  define i1 where "i1 = fill_defaults (nonInteractive c) i"
  define missing where "missing = validateNonInteractive i1"
  have f: "i1 = fill_defaults False i" using assms by (simp add: i1_def)
  have 1: "starterKit i1 = Some (or_default (starterKit i) ''react'')"
    "db i1 = Some (or_default (db i) ''sqlite'')"
    "filamentName i1 = Some (or_default (filamentName i) ''Admin'')"
    "filamentEmail i1 = Some (or_default (filamentEmail i) ''admin@admin.com'')"
    "filamentPassword i1 = Some (or_default (filamentPassword i) ''password'')"
    by (simp_all add: f)
  have 2: "db i1 = Some ''sqlite'' \<longrightarrow>
          missing = (if truthy (projectName i) then [] else [''--project-name''])"
  proof
    assume d: "db i1 = Some ''sqlite''"
    have "projectName i1 = projectName i" by (simp add: f)
    with d 1 show "missing = (if truthy (projectName i) then [] else [''--project-name''])"
      by (simp add: missing_def validateNonInteractive_def)
  qed
  have 3: "db i1 = Some ''sqlite'' \<and> \<not> truthy (projectName i) \<longrightarrow>
          (\<exists>rep. runCreate w c = Inr rep \<and> exit_code rep = 1 \<and> final rep = None \<and>
             map_option doc_error (written rep) =
               Some (Some (missing_message [''--project-name''], Some ''EINVAL'', None)))"
  proof
    assume a: "db i1 = Some ''sqlite'' \<and> \<not> truthy (projectName i)"
    with 2 have m: "missing = [''--project-name'']" by simp
    have j: "json c \<or> nonInteractive c \<or> \<not> isTTY w" using assms by simp
    have "validateNonInteractive (fill_defaults (nonInteractive c) (params c)) =
          [''--project-name'']"
      using m by (simp add: missing_def i1_def i_def)
    from runCreate_missing [OF j this] assms
    show "\<exists>rep. runCreate w c = Inr rep \<and> exit_code rep = 1 \<and> final rep = None \<and>
             map_option doc_error (written rep) =
               Some (Some (missing_message [''--project-name''], Some ''EINVAL'', None))"
      by auto
  qed
  have 4: "\<forall>b j. ''--starter-kit'' \<notin> set (validateNonInteractive (fill_defaults b j)) \<and>
              ''--db'' \<notin> set (validateNonInteractive (fill_defaults b j))"
    by (simp add: validateNonInteractive_def)
  from 1 2 3 4 show ?thesis
    unfolding Let_def i_def [symmetric] i1_def [symmetric] missing_def [symmetric] by blast
qed

theorem defaults_before_validation_witness:
  "json example_bare_json_ctx \<and> \<not> nonInteractive example_bare_json_ctx \<and>
   fill_defaults False (params example_bare_json_ctx) =
     no_flags\<lparr>starterKit := Some ''react'', db := Some ''sqlite'',
              filamentName := Some ''Admin'', filamentEmail := Some ''admin@admin.com'',
              filamentPassword := Some ''password''\<rparr> \<and>
   validateNonInteractive (fill_defaults False (params example_bare_json_ctx)) =
     [''--project-name''] \<and>
   (\<exists>rep. runCreate example_world example_bare_json_ctx = Inr rep \<and> exit_code rep = 1 \<and>
      final rep = None \<and>
      map_option doc_error (written rep) =
        Some (Some (missing_message [''--project-name''], Some ''EINVAL'', None)))"
proof -
  have n: "json example_bare_json_ctx" "\<not> nonInteractive example_bare_json_ctx"
    by (simp_all add: example_bare_json_ctx_def)
  have p: "params example_bare_json_ctx = no_flags"
    by (simp add: example_bare_json_ctx_def)
  have q: "projectName no_flags = None" "db no_flags = None" "starterKit no_flags = None"
    "filamentName no_flags = None" "filamentEmail no_flags = None"
    "filamentPassword no_flags = None"
    by (simp_all add: no_flags_def)
  have e: "fill_defaults False no_flags =
     no_flags\<lparr>starterKit := Some ''react'', db := Some ''sqlite'',
              filamentName := Some ''Admin'', filamentEmail := Some ''admin@admin.com'',
              filamentPassword := Some ''password''\<rparr>"
    by (simp add: fill_defaults_def Let_def q)
  note th = defaults_before_validation [of example_bare_json_ctx example_world, OF n,
      unfolded Let_def]
  have d: "db (fill_defaults False no_flags) = Some ''sqlite''"
    by (simp add: q)
  have m: "validateNonInteractive (fill_defaults False no_flags) = [''--project-name'']"
    using th n d by (simp add: p q)
  have r: "\<exists>rep. runCreate example_world example_bare_json_ctx = Inr rep \<and>
      exit_code rep = 1 \<and> final rep = None \<and>
      map_option doc_error (written rep) =
        Some (Some (missing_message [''--project-name''], Some ''EINVAL'', None))"
    using th n d by (simp add: p q)
  from n e m r show ?thesis by (simp add: p)
qed

text \<open>
  The task list stops at the first task that throws: the tasks after it are never run, and
  the state is the one the failing task left.
\<close>

lemma listr_run_append:
  "listr_run (ts @ us) s =
     (case listr_run ts s of (Inl e, s') \<Rightarrow> (Inl e, s') | (Inr u, s') \<Rightarrow> listr_run us s')"
  by (induction ts arbitrary: s) (auto split: prod.splits sum.splits)

lemma listr_run_aborts:
  assumes "listr_run ts s = (Inr (), s1)"
    and "task t (s1\<lparr>started := started s1 @ [title t]\<rparr>) = (Inl e, s2)"
  shows "listr_run (ts @ t # later) s = (Inl e, s2)"
  using assms by (simp add: listr_run_append)

text \<open>
  C1. A run with \<open>--json --project-name blog\<close> in which \<open>laravel new\<close> exits non-zero: the
  exit code is 1, the document has the status \<open>error\<close>, the events are those of the first
  task and the failing event of the second, only these two tasks were started, and the
  \<open>step\<close> of the reported error is \<open>null\<close>. Without Herd the first task throws before it
  records an event: no event at all, and again no \<open>step\<close>.
\<close>

theorem runCreate_failure_step_null:
  "(case runCreate example_world example_json_ctx of
      Inl e \<Rightarrow> None
    | Inr rep \<Rightarrow>
        Some (exit_code rep, map_option doc_status (written rep),
              map_option doc_tasks (written rep), map_option doc_error (written rep),
              map_option started (final rep))) =
   Some (1, Some (Some ''error''),
         Some (Some [(0, ''prechecks'', ''success'', None, None, None),
                     (1, ''laravel_new'', ''error'', Some 5, Some [], Some ''boom'')]),
         Some (Some (''Fallo al crear el proyecto Laravel'', None, None)),
         Some [''Prechequeos'', ''Scaffold del proyecto'']) \<and>
   (case runCreate (example_world\<lparr>commandExists := (\<lambda>cmd. cmd \<noteq> ''herd'')\<rparr>)
           example_json_ctx of
      Inl e \<Rightarrow> None
    | Inr rep \<Rightarrow>
        Some (exit_code rep, map_option doc_status (written rep),
              map_option doc_tasks (written rep), map_option doc_error (written rep),
              map_option started (final rep))) =
   Some (1, Some (Some ''error''), Some (Some []),
         Some (Some (''Laravel Herd no parece estar instalado. Inst'' @ [CHR 0xE1] @
                     ''lalo antes de continuar.'', None, None)),
         Some [''Prechequeos''])"
  by code_simp


end
